theory Spec2Isabelle
  imports Complex_Main
begin

section \<open>Values\<close>

subsection \<open>float64\<close>

text \<open>
  The arrays of \<^verbatim>\<open>pergrams.py\<close> hold IEEE double precision numbers. A finite double is
  modelled by the real number it stands for: rounding and overflow are idealised away, so
  an operation on finite values is the exact operation on the reals. The three special
  values are kept, with the IEEE rules for them, because numpy does not raise on a
  division by zero: it returns an infinity or a NaN. The sign of a zero is not modelled;
  a zero divisor counts as \<open>+0.0\<close>. Where rounding decides whether a value is zero, the
  model and the doubles can part: the variance of a constant list is zero in exact
  arithmetic, and need not be in doubles (the mean of \<open>[0.1, 0.1, 0.1]\<close> is rounded). The
  results below that speak of a zero variance therefore take the computed variance as it
  is, and none derives it from the shape of the signal.
\<close>

datatype float64 = Fin real | PInf | NInf | NaN

fun isnan :: "float64 \<Rightarrow> bool" where
  "isnan NaN = True"
| "isnan _ = False"

fun isfinite :: "float64 \<Rightarrow> bool" where
  "isfinite (Fin _) = True"
| "isfinite _ = False"

fun fneg :: "float64 \<Rightarrow> float64" where
  "fneg (Fin a) = Fin (- a)"
| "fneg PInf = NInf"
| "fneg NInf = PInf"
| "fneg NaN = NaN"

fun fadd :: "float64 \<Rightarrow> float64 \<Rightarrow> float64" where
  "fadd NaN _ = NaN"
| "fadd _ NaN = NaN"
| "fadd (Fin a) (Fin b) = Fin (a + b)"
| "fadd PInf NInf = NaN"
| "fadd NInf PInf = NaN"
| "fadd PInf _ = PInf"
| "fadd _ PInf = PInf"
| "fadd NInf _ = NInf"
| "fadd _ NInf = NInf"

definition fsub :: "float64 \<Rightarrow> float64 \<Rightarrow> float64" where
  "fsub a b = fadd a (fneg b)"

fun fmul :: "float64 \<Rightarrow> float64 \<Rightarrow> float64" where
  "fmul NaN _ = NaN"
| "fmul _ NaN = NaN"
| "fmul (Fin a) (Fin b) = Fin (a * b)"
| "fmul (Fin a) PInf = (if a = 0 then NaN else if 0 < a then PInf else NInf)"
| "fmul (Fin a) NInf = (if a = 0 then NaN else if 0 < a then NInf else PInf)"
| "fmul PInf (Fin b) = (if b = 0 then NaN else if 0 < b then PInf else NInf)"
| "fmul NInf (Fin b) = (if b = 0 then NaN else if 0 < b then NInf else PInf)"
| "fmul PInf PInf = PInf"
| "fmul PInf NInf = NInf"
| "fmul NInf PInf = NInf"
| "fmul NInf NInf = PInf"

text \<open>numpy's division: a zero divisor gives NaN for \<open>0/0\<close> and an infinity otherwise.\<close>

fun fdiv :: "float64 \<Rightarrow> float64 \<Rightarrow> float64" where
  "fdiv NaN _ = NaN"
| "fdiv _ NaN = NaN"
| "fdiv (Fin a) (Fin b) =
     (if b \<noteq> 0 then Fin (a / b) else if a = 0 then NaN else if 0 < a then PInf else NInf)"
| "fdiv (Fin a) PInf = Fin 0"
| "fdiv (Fin a) NInf = Fin 0"
| "fdiv PInf (Fin b) = (if 0 \<le> b then PInf else NInf)"
| "fdiv NInf (Fin b) = (if 0 \<le> b then NInf else PInf)"
| "fdiv _ _ = NaN"

definition fpow2 :: "float64 \<Rightarrow> float64" where
  "fpow2 x = fmul x x"

fun fsqrt :: "float64 \<Rightarrow> float64" where
  "fsqrt (Fin a) = (if 0 \<le> a then Fin (sqrt a) else NaN)"
| "fsqrt PInf = PInf"
| "fsqrt _ = NaN"

fun fcos :: "float64 \<Rightarrow> float64" where
  "fcos (Fin a) = Fin (cos a)"
| "fcos _ = NaN"

fun fsin :: "float64 \<Rightarrow> float64" where
  "fsin (Fin a) = Fin (sin a)"
| "fsin _ = NaN"

fun fexp :: "float64 \<Rightarrow> float64" where
  "fexp (Fin a) = Fin (exp a)"
| "fexp PInf = PInf"
| "fexp NInf = Fin 0"
| "fexp NaN = NaN"

fun flt :: "float64 \<Rightarrow> float64 \<Rightarrow> bool" where
  "flt NaN _ = False"
| "flt _ NaN = False"
| "flt (Fin a) (Fin b) = (a < b)"
| "flt (Fin a) PInf = True"
| "flt (Fin a) NInf = False"
| "flt PInf _ = False"
| "flt NInf NInf = False"
| "flt NInf _ = True"

definition feq :: "float64 \<Rightarrow> float64 \<Rightarrow> bool" where
  "feq a b = (a = b \<and> \<not> isnan a)"

definition fle :: "float64 \<Rightarrow> float64 \<Rightarrow> bool" where
  "fle a b = (flt a b \<or> feq a b)"

text \<open>
  \<^verbatim>\<open>bool(x)\<close> of a double is \<^verbatim>\<open>x != 0\<close>: a NaN and the infinities are true.
\<close>

definition truthy :: "float64 \<Rightarrow> bool" where
  "truthy x = (\<not> feq x (Fin 0))"

text \<open>Python's \<^verbatim>\<open>int(x)\<close> of a float truncates towards zero.\<close>

definition py_int :: "real \<Rightarrow> int" where
  "py_int x = (if 0 \<le> x then \<lfloor>x\<rfloor> else \<lceil>x\<rceil>)"

text \<open>C's \<^verbatim>\<open>fmod\<close>, which \<^verbatim>\<open>np.fmod\<close> calls: the result has the sign of the dividend.\<close>

fun np_fmod :: "float64 \<Rightarrow> float64 \<Rightarrow> float64" where
  "np_fmod (Fin a) (Fin b) = (if b = 0 then NaN else Fin (a - b * of_int (py_int (a / b))))"
| "np_fmod (Fin a) PInf = Fin a"
| "np_fmod (Fin a) NInf = Fin a"
| "np_fmod _ _ = NaN"

subsection \<open>Exceptions\<close>

datatype error = NameError | TypeError | ValueError | ZeroDivisionError | IndexError

text \<open>Division of two Python floats (or of a float by an int) raises on a zero divisor.\<close>

definition py_div :: "real \<Rightarrow> real \<Rightarrow> error + real" where
  "py_div a b = (if b = 0 then Inl ZeroDivisionError else Inr (a / b))"

text \<open>
  Statements run in sequence: the first exception ends the run, and is the result.
\<close>

definition andthen :: "error + 'a \<Rightarrow> ('a \<Rightarrow> error + 'b) \<Rightarrow> error + 'b" where
  "andthen m f = (case m of Inl e \<Rightarrow> Inl e | Inr x \<Rightarrow> f x)"

subsection \<open>Names\<close>

text \<open>
  The names bound at module scope once the module has been imported: the imports and the
  functions. The block under \<^verbatim>\<open>if __name__=="__main__"\<close>, which binds \<^verbatim>\<open>logger\<close>
  among others, does not run on import.
\<close>

definition module_globals :: "string list" where
  "module_globals =
     [''np'', ''cos'', ''sin'', ''pi'', ''make_parallel'', ''parallel_pergram'',
      ''defaults_pergram'', ''pyscargle'', ''pyclean'', ''pyGLS'', ''pyKEP'', ''multih'',
      ''fdeeming'', ''eebls'', ''windowfunction'', ''scargle'', ''deeming'', ''DFTpower'',
      ''FFTpower'', ''FFTpowerdensity'', ''weightedpower'', ''gls'', ''clean'',
      ''schwarzenberg_czerny'', ''pdm'', ''pdm_py'', ''bls'', ''kepler'']"

text \<open>
  The builtins that the module uses. None of the others bears one of the names looked up
  below (\<^verbatim>\<open>logger\<close>, \<^verbatim>\<open>stopfreq\<close>, \<^verbatim>\<open>startfreq\<close>, \<^verbatim>\<open>stepfreq\<close>).
\<close>

definition builtins :: "string list" where
  "builtins = [''len'', ''int'', ''range'', ''enumerate'', ''None'']"

text \<open>
  A name that is not local to the running function is looked up at module scope, then
  among the builtins; it raises \<^verbatim>\<open>NameError\<close> when it is bound in neither.
\<close>

definition load_global :: "string \<Rightarrow> error + unit" where
  "load_global name =
     (if name \<in> set module_globals \<or> name \<in> set builtins then Inr () else Inl NameError)"

text \<open>
  Reading a name where a float is needed. The locals map a name to its float, or to
  \<open>None\<close> when it holds Python's \<^verbatim>\<open>None\<close>; the only float at module scope is
  \<^verbatim>\<open>pi\<close>. Arithmetic on any other object raises \<^verbatim>\<open>TypeError\<close>.
\<close>

definition load_float :: "(string \<times> real option) list \<Rightarrow> string \<Rightarrow> error + real" where
  "load_float locals name =
     (case map_of locals name of
        Some (Some v) \<Rightarrow> Inr v
      | Some None \<Rightarrow> Inl TypeError
      | None \<Rightarrow>
          (if name = ''pi'' then Inr pi
           else andthen (load_global name) (\<lambda>_. Inl TypeError)))"

section \<open>numpy\<close>

definition np_zeros :: "int \<Rightarrow> error + float64 list" where
  "np_zeros k = (if k < 0 then Inl ValueError else Inr (replicate (nat k) (Fin 0)))"

definition np_sum :: "float64 list \<Rightarrow> float64" where
  "np_sum xs = foldl fadd (Fin 0) xs"

definition np_mean :: "float64 list \<Rightarrow> float64" where
  "np_mean xs = fdiv (np_sum xs) (Fin (real (length xs)))"

text \<open>\<^verbatim>\<open>np.var\<close>, with its default \<^verbatim>\<open>ddof=0\<close>: the mean of the squared deviations.\<close>

definition np_var :: "float64 list \<Rightarrow> float64" where
  "np_var xs = np_mean (map (\<lambda>x. fpow2 (fsub x (np_mean xs))) xs)"

text \<open>The maximum and the minimum of an array propagate a NaN.\<close>

definition fmax :: "float64 \<Rightarrow> float64 \<Rightarrow> float64" where
  "fmax a b = (if isnan a \<or> isnan b then NaN else if flt a b then b else a)"

definition fmin :: "float64 \<Rightarrow> float64 \<Rightarrow> float64" where
  "fmin a b = (if isnan a \<or> isnan b then NaN else if flt b a then b else a)"

text \<open>\<^verbatim>\<open>a.ptp()\<close>: maximum minus minimum; an empty array has neither.\<close>

definition ptp :: "float64 list \<Rightarrow> error + float64" where
  "ptp xs =
     (case xs of
        [] \<Rightarrow> Inl ValueError
      | x # r \<Rightarrow> Inr (fsub (foldl fmax x r) (foldl fmin x r)))"

section \<open>The classical periodogram and Deeming's\<close>

text \<open>
  The decorators \<^verbatim>\<open>defaults_pergram\<close>, \<^verbatim>\<open>parallel_pergram\<close> and
  \<^verbatim>\<open>make_parallel\<close> are defined in other modules. The functions below are the bodies
  that they wrap, called with a complete grid \<open>f0\<close>, \<open>fn\<close>, \<open>df\<close> of Python floats.
  The compiled routines (\<^verbatim>\<open>pyscargle.scar2\<close>, \<^verbatim>\<open>pyscargle.scar3\<close>,
  \<^verbatim>\<open>deeming.deeming1\<close>, \<^verbatim>\<open>eebls.eebls\<close>) are parameters of the model.
\<close>

type_synonym scar2_routine =
  "float64 list \<Rightarrow> float64 list \<Rightarrow> real \<Rightarrow> real \<Rightarrow> float64 list \<Rightarrow> float64 list \<Rightarrow>
   float64 list \<Rightarrow> float64 list \<Rightarrow> float64 list \<Rightarrow> float64 list \<Rightarrow> float64 list \<times> float64 list"

type_synonym scar3_routine =
  "float64 list \<Rightarrow> float64 list \<Rightarrow> real \<Rightarrow> real \<Rightarrow> float64 list \<Rightarrow> float64 list \<Rightarrow>
   float64 list \<Rightarrow> float64 list \<Rightarrow> float64 list \<Rightarrow> float64 list \<Rightarrow> float64 list \<Rightarrow>
   float64 list \<times> float64 list"

type_synonym deeming1_routine =
  "float64 list \<Rightarrow> float64 list \<Rightarrow> real \<Rightarrow> real \<Rightarrow> int \<Rightarrow> float64 list \<times> float64 list"

text \<open>\<^verbatim>\<open>nf=int((fn-f0)/df+0.001)+1\<close>\<close>

definition grid_size :: "real \<Rightarrow> real \<Rightarrow> real \<Rightarrow> error + int" where
  "grid_size f0 fn df = andthen (py_div (fn - f0) df) (\<lambda>q. Inr (py_int (q + 0.001) + 1))"

text \<open>\<^verbatim>\<open>if not s1[0]: s1[0]=0.\<close>\<close>

definition zero_first :: "float64 list \<Rightarrow> error + float64 list" where
  "zero_first s1 =
     (case s1 of
        [] \<Rightarrow> Inl IndexError
      | x # r \<Rightarrow> Inr (if \<not> truthy x then s1[0 := Fin 0] else s1))"

text \<open>
  The chain \<^verbatim>\<open>if norm =='distribution': ... elif norm == "amplitude": ... elif norm ==
  "density": ...\<close> that ends both functions. \<open>fct\<close> is the value of \<^verbatim>\<open>fact\<close>,
  \<^verbatim>\<open>np.sqrt(4./n)\<close>.
\<close>

definition rescale ::
  "string \<Rightarrow> float64 \<Rightarrow> float64 list \<Rightarrow> float64 \<Rightarrow> float64 list \<Rightarrow> float64 list" where
  "rescale nrm fct signal T s1 =
     (if nrm = ''distribution'' then map (\<lambda>s. fdiv s (np_var signal)) s1
      else if nrm = ''amplitude'' then map (\<lambda>s. fmul fct (fsqrt s)) s1
      else if nrm = ''density'' then map (\<lambda>s. fmul (fmul (fpow2 fct) s) T) s1
      else s1)"

text \<open>
  The call of the compiled routine: \<^verbatim>\<open>scar2\<close> without weights; with weights, the
  line \<^verbatim>\<open>logger.debug('Weighed scargle')\<close> runs before \<^verbatim>\<open>scar3\<close>.
\<close>

definition scargle_routine ::
  "scar2_routine \<Rightarrow> scar3_routine \<Rightarrow> float64 list \<Rightarrow> float64 list \<Rightarrow> real \<Rightarrow> real \<Rightarrow>
   float64 list \<Rightarrow> float64 list option \<Rightarrow> error + (float64 list \<times> float64 list)" where
  "scargle_routine scar2 scar3 signal tms f0 df z weights =
     (case weights of
        None \<Rightarrow> Inr (scar2 signal tms f0 df z z z z z z)
      | Some w \<Rightarrow>
          andthen (load_global ''logger'') (\<lambda>_. Inr (scar3 signal tms f0 df z z z z z z w)))"

definition scargle ::
  "scar2_routine \<Rightarrow> scar3_routine \<Rightarrow> float64 list \<Rightarrow> float64 list \<Rightarrow> real \<Rightarrow> real \<Rightarrow> real \<Rightarrow>
   string \<Rightarrow> float64 list option \<Rightarrow> error + (float64 list \<times> float64 list)" where
  "scargle scar2 scar3 tms signal f0 fn df nrm weights =
     (let n = length tms in
      andthen (ptp tms) (\<lambda>T.
      andthen (grid_size f0 fn df) (\<lambda>nf.
      andthen (np_zeros nf) (\<lambda>z.
      andthen (scargle_routine scar2 scar3 signal tms f0 df z weights) (\<lambda>(f1, s1).
      andthen (zero_first s1) (\<lambda>s1'.
      andthen (py_div 4 (real n)) (\<lambda>r.
      Inr (f1, rescale nrm (fsqrt (Fin r)) signal T s1'))))))))"

definition deeming ::
  "deeming1_routine \<Rightarrow> float64 list \<Rightarrow> float64 list \<Rightarrow> real \<Rightarrow> real \<Rightarrow> real \<Rightarrow> string \<Rightarrow>
   error + (float64 list \<times> float64 list)" where
  "deeming deeming1 tms signal f0 fn df nrm =
     andthen (grid_size f0 fn df) (\<lambda>nf.
     let n = length tms in
     andthen (ptp tms) (\<lambda>T.
     let (f1, s1) = deeming1 tms signal f0 df nf;
         s1' = map (\<lambda>s. fdiv s (Fin (real n))) s1 in
     andthen (py_div 4 (real n)) (\<lambda>r.
     Inr (f1, rescale nrm (fsqrt (Fin r)) signal T s1'))))"

section \<open>DFTpower\<close>

text \<open>A complex double is a pair of doubles.\<close>

type_synonym complex128 = "float64 \<times> float64"

definition cmul :: "complex128 \<Rightarrow> complex128 \<Rightarrow> complex128" where
  "cmul z w =
     (fsub (fmul (fst z) (fst w)) (fmul (snd z) (snd w)),
      fadd (fmul (fst z) (snd w)) (fmul (snd z) (fst w)))"

definition cadd :: "complex128 \<Rightarrow> complex128 \<Rightarrow> complex128" where
  "cadd z w = (fadd (fst z) (fst w), fadd (snd z) (snd w))"

definition cexp :: "complex128 \<Rightarrow> complex128" where
  "cexp z = (fmul (fexp (fst z)) (fcos (snd z)), fmul (fexp (fst z)) (fsin (snd z)))"

definition csum :: "complex128 list \<Rightarrow> complex128" where
  "csum zs = foldl cadd (Fin 0, Fin 0) zs"

text \<open>\<^verbatim>\<open>np.exp(1j*2.*pi*f*time)\<close>\<close>

definition phasors :: "real \<Rightarrow> float64 list \<Rightarrow> complex128 list" where
  "phasors f time = map (\<lambda>t. cexp (cmul (Fin 0, Fin (2 * pi * f)) (t, Fin 0))) time"

text \<open>
  The loop \<^verbatim>\<open>for k in range(1,Nfreq): A *= B; ft[k] = np.sum(A)\<close>, over the values of
  \<open>k\<close> that are left.
\<close>

fun DFT_loop ::
  "complex128 list \<Rightarrow> nat list \<Rightarrow> complex128 list \<Rightarrow> complex128 list \<Rightarrow> complex128 list" where
  "DFT_loop B [] A ft = ft"
| "DFT_loop B (k # ks) A ft =
     (let A' = map2 cmul A B in DFT_loop B ks A' (ft[k := csum A']))"

text \<open>
  \<^verbatim>\<open>DFTpower\<close> has no decorator: \<open>f0\<close>, \<open>fn\<close> and \<open>df\<close> are \<^verbatim>\<open>None\<close> unless the
  caller gives them. The body reads \<^verbatim>\<open>stopfreq\<close>, \<^verbatim>\<open>startfreq\<close> and
  \<^verbatim>\<open>stepfreq\<close>, in this order. \<^verbatim>\<open>np.zeros\<close> refuses a negative size, and
  \<^verbatim>\<open>ft[0]\<close> an empty array.
\<close>

definition DFTpower ::
  "float64 list \<Rightarrow> float64 list \<Rightarrow> real option \<Rightarrow> real option \<Rightarrow> real option \<Rightarrow>
   error + float64 list" where
  "DFTpower time signal f0 fn df =
     (let locals = [(''f0'', f0), (''fn'', fn), (''df'', df)];
          Ntime = length time in
      andthen (load_float locals ''stopfreq'') (\<lambda>stopfreq.
      andthen (load_float locals ''startfreq'') (\<lambda>startfreq.
      andthen (load_float locals ''stepfreq'') (\<lambda>stepfreq.
      andthen (py_div (stopfreq - startfreq) stepfreq) (\<lambda>q.
      let Nfreq = \<lceil>q\<rceil> in
      if Nfreq < 0 then Inl ValueError
      else if Nfreq = 0 then Inl IndexError
      else
        let A = map2 cmul (phasors startfreq time) (map (\<lambda>s. (s, Fin 0)) signal);
            B = phasors stepfreq time;
            ft = (replicate (nat Nfreq) (Fin 0, Fin 0))[0 := csum A];
            ft' = DFT_loop B [1..<nat Nfreq] A ft
        in Inr (map (\<lambda>z. fdiv (fmul (fadd (fpow2 (fst z)) (fpow2 (snd z))) (Fin 4))
                             (Fin (real (Ntime ^ 2)))) ft'))))))"

section \<open>The window function\<close>

text \<open>
  \<^verbatim>\<open>np.empty_like\<close> gives an array of the same shape whose content is not set; the
  model fills it with zeros. Every cell is written by the loop before it is read.
\<close>

definition np_empty_like :: "float64 list \<Rightarrow> float64 list" where
  "np_empty_like xs = replicate (length xs) (Fin 0)"

text \<open>\<^verbatim>\<open>np.cos(2.0*pi*f*time)\<close> and \<^verbatim>\<open>np.sin(2.0*pi*f*time)\<close>\<close>

definition cos_wave :: "float64 \<Rightarrow> float64 list \<Rightarrow> float64 list" where
  "cos_wave f time = map (\<lambda>t. fcos (fmul (fmul (Fin (2 * pi)) f) t)) time"

definition sin_wave :: "float64 \<Rightarrow> float64 list \<Rightarrow> float64 list" where
  "sin_wave f time = map (\<lambda>t. fsin (fmul (fmul (Fin (2 * pi)) f) t)) time"

text \<open>The loop \<^verbatim>\<open>for i in range(Nfreq)\<close>, over the indices that are left.\<close>

fun window_loop ::
  "float64 list \<Rightarrow> float64 list \<Rightarrow> nat list \<Rightarrow> float64 list \<Rightarrow> float64 list" where
  "window_loop time freq [] winkernel = winkernel"
| "window_loop time freq (i # ks) winkernel =
     window_loop time freq ks
       (winkernel[i := fadd (fpow2 (np_sum (cos_wave (freq ! i) time)))
                            (fpow2 (np_sum (sin_wave (freq ! i) time)))])"

definition windowfunction :: "float64 list \<Rightarrow> float64 list \<Rightarrow> float64 list" where
  "windowfunction time freq =
     (let Ntime = length time;
          Nfreq = length freq;
          winkernel = window_loop time freq [0..<Nfreq] (np_empty_like freq)
      in map (\<lambda>w. fdiv w (Fin (real (Ntime ^ 2)))) winkernel)"

section \<open>The weighted sine fit\<close>

text \<open>
  The product of two one-dimensional arrays: element by element when the lengths agree, an
  array of length one is stretched, and any other pair of shapes raises \<^verbatim>\<open>ValueError\<close>.
\<close>

definition np_mul :: "float64 list \<Rightarrow> float64 list \<Rightarrow> error + float64 list" where
  "np_mul xs ys =
     (if length xs = length ys then Inr (map2 fmul xs ys)
      else if length xs = 1 then Inr (map (fmul (hd xs)) ys)
      else if length ys = 1 then Inr (map (\<lambda>x. fmul x (hd ys)) xs)
      else Inl ValueError)"

text \<open>\<^verbatim>\<open>np.sum(a*b*c)\<close>\<close>

definition sum3 :: "float64 list \<Rightarrow> float64 list \<Rightarrow> float64 list \<Rightarrow> error + float64" where
  "sum3 a b c = andthen (np_mul a b) (\<lambda>ab. andthen (np_mul ab c) (\<lambda>abc. Inr (np_sum abc)))"

text \<open>The branch \<^verbatim>\<open>freq[i] != 0.0\<close> of the loop body, at the frequency \<open>f\<close>.\<close>

definition sine_fit ::
  "float64 list \<Rightarrow> float64 list \<Rightarrow> float64 list \<Rightarrow> float64 \<Rightarrow> error + float64" where
  "sine_fit time signal weight f =
     (let sine = sin_wave f time;
          cosine = cos_wave f time in
      andthen (sum3 weight sine sine) (\<lambda>a11.
      andthen (sum3 weight sine cosine) (\<lambda>a12.
      let a21 = a12 in
      andthen (sum3 weight cosine cosine) (\<lambda>a22.
      andthen (sum3 weight signal sine) (\<lambda>b1.
      andthen (sum3 weight signal cosine) (\<lambda>b2.
      let denominator = fsub (fmul a11 a22) (fmul a12 a21);
          A = fdiv (fsub (fmul b1 a22) (fmul b2 a12)) denominator;
          B = fdiv (fsub (fmul b2 a11) (fmul b1 a21)) denominator
      in Inr (fadd (fmul A A) (fmul B B))))))))"

fun weightedpower_loop ::
  "float64 list \<Rightarrow> float64 list \<Rightarrow> float64 list \<Rightarrow> float64 list \<Rightarrow> nat list \<Rightarrow>
   float64 list \<Rightarrow> error + float64 list" where
  "weightedpower_loop time signal weight freq [] result = Inr result"
| "weightedpower_loop time signal weight freq (i # ks) result =
     andthen (if \<not> feq (freq ! i) (Fin 0) then sine_fit time signal weight (freq ! i)
              else Inr (fdiv (np_sum signal) (Fin (real (length signal)))))
       (\<lambda>v. weightedpower_loop time signal weight freq ks (result[i := v]))"

definition weightedpower ::
  "float64 list \<Rightarrow> float64 list \<Rightarrow> float64 list \<Rightarrow> float64 list \<Rightarrow> error + float64 list" where
  "weightedpower time signal weight freq =
     weightedpower_loop time signal weight freq [0..<length freq]
       (replicate (length freq) (Fin 0))"

section \<open>Phase dispersion minimisation\<close>

text \<open>
  \<^verbatim>\<open>np.arange(start, stop, step)\<close> on Python floats: \<open>\<lceil>(stop - start) / step\<rceil>\<close>
  values \<open>start + i * step\<close>, none when that count is not positive.
\<close>

definition np_arange :: "real \<Rightarrow> real \<Rightarrow> real \<Rightarrow> error + float64 list" where
  "np_arange start stop step =
     andthen (py_div (stop - start) step)
       (\<lambda>q. Inr (map (\<lambda>i. Fin (start + real i * step)) [0..<nat \<lceil>q\<rceil>]))"

text \<open>\<^verbatim>\<open>np.fmod(x, 1.0)\<close> of a Python float.\<close>

definition fmod1 :: "real \<Rightarrow> real" where
  "fmod1 x = x - of_int (py_int x)"

text \<open>
  \<^verbatim>\<open>np.compress(cond, a)\<close> takes the elements of \<open>a\<close> at the indices where \<open>cond\<close>
  holds; such an index beyond the end of \<open>a\<close> raises \<^verbatim>\<open>IndexError\<close>.
\<close>

definition np_compress :: "bool list \<Rightarrow> 'a list \<Rightarrow> error + 'a list" where
  "np_compress cond a =
     (let idx = filter (\<lambda>i. cond ! i) [0..<length cond] in
      if list_all (\<lambda>i. i < length a) idx then Inr (map (\<lambda>i. a ! i) idx) else Inl IndexError)"

text \<open>
  \<^verbatim>\<open>phase = np.fmod((time - time[0]) * freq[i] + D/2.*time**2, 1.0)\<close>
\<close>

definition pdm_phase :: "float64 list \<Rightarrow> float64 \<Rightarrow> real \<Rightarrow> error + float64 list" where
  "pdm_phase time f D =
     (case time of
        [] \<Rightarrow> Inl IndexError
      | t0 # _ \<Rightarrow>
          Inr (map (\<lambda>t. np_fmod (fadd (fmul (fsub t t0) f) (fmul (Fin (D / 2)) (fpow2 t)))
                             (Fin 1)) time))"

text \<open>
  The mask of one bin: \<^verbatim>\<open>(left <= phase) & (phase < right)\<close> when
  \<^verbatim>\<open>left < right\<close>, and \<^verbatim>\<open>~((right <= phase) & (phase < left))\<close> otherwise.
\<close>

definition in_bin :: "real \<Rightarrow> real \<Rightarrow> float64 \<Rightarrow> bool" where
  "in_bin left right p =
     (if left < right then fle (Fin left) p \<and> flt p (Fin right)
      else \<not> (fle (Fin right) p \<and> flt p (Fin left)))"

text \<open>
  The body of the two inner loops, for the bin \<open>k\<close> and the cover \<open>n\<close>; the state is the
  pair of \<^verbatim>\<open>theta[i]\<close> and \<^verbatim>\<open>Nempty\<close>.
\<close>

definition pdm_bin ::
  "float64 list \<Rightarrow> float64 list \<Rightarrow> real \<Rightarrow> real \<Rightarrow> nat \<Rightarrow> nat \<Rightarrow> float64 \<times> int \<Rightarrow>
   error + (float64 \<times> int)" where
  "pdm_bin signal phase binsize covershift k n st =
     (let left = fmod1 (real k * binsize + real n * covershift);
          right = fmod1 (real (k + 1) * binsize + real n * covershift) in
      andthen (np_compress (map (in_bin left right) phase) signal) (\<lambda>bindata.
      if length bindata \<noteq> 0
      then Inr (fadd (fst st) (fmul (Fin (real (length bindata) - 1)) (np_var bindata)), snd st)
      else Inr (fst st, snd st + 1)))"

text \<open>\<^verbatim>\<open>for n in range(Ncover)\<close>\<close>

fun pdm_covers ::
  "float64 list \<Rightarrow> float64 list \<Rightarrow> real \<Rightarrow> real \<Rightarrow> nat \<Rightarrow> nat list \<Rightarrow> float64 \<times> int \<Rightarrow>
   error + (float64 \<times> int)" where
  "pdm_covers signal phase binsize covershift k [] st = Inr st"
| "pdm_covers signal phase binsize covershift k (n # ns) st =
     andthen (pdm_bin signal phase binsize covershift k n st)
       (pdm_covers signal phase binsize covershift k ns)"

text \<open>\<^verbatim>\<open>for k in range(Nbin)\<close>\<close>

fun pdm_bins ::
  "float64 list \<Rightarrow> float64 list \<Rightarrow> real \<Rightarrow> real \<Rightarrow> nat list \<Rightarrow> nat list \<Rightarrow> float64 \<times> int \<Rightarrow>
   error + (float64 \<times> int)" where
  "pdm_bins signal phase binsize covershift [] ns st = Inr st"
| "pdm_bins signal phase binsize covershift (k # ks) ns st =
     andthen (pdm_covers signal phase binsize covershift k ns st)
       (pdm_bins signal phase binsize covershift ks ns)"

text \<open>
  One turn of the loop over the frequencies: the value of \<^verbatim>\<open>theta[i]\<close> after its
  first normalisation, from its value \<open>th\<close> before.
\<close>

definition pdm_theta ::
  "float64 list \<Rightarrow> float64 list \<Rightarrow> real \<Rightarrow> real \<Rightarrow> int \<Rightarrow> int \<Rightarrow> real \<Rightarrow> float64 \<Rightarrow> float64 \<Rightarrow>
   error + float64" where
  "pdm_theta time signal binsize covershift Nbin Ncover D f th =
     (let Ntime = int (length time) in
      andthen (pdm_phase time f D) (\<lambda>phase.
      andthen (pdm_bins signal phase binsize covershift [0..<nat Nbin] [0..<nat Ncover] (th, 0))
        (\<lambda>(th', Nempty).
           Inr (fdiv th' (Fin (of_int (Ncover * Ntime - (Ncover * Nbin - Nempty))))))))"

fun pdm_loop ::
  "float64 list \<Rightarrow> float64 list \<Rightarrow> real \<Rightarrow> real \<Rightarrow> int \<Rightarrow> int \<Rightarrow> real \<Rightarrow> float64 list \<Rightarrow>
   nat list \<Rightarrow> float64 list \<Rightarrow> error + float64 list" where
  "pdm_loop time signal binsize covershift Nbin Ncover D freq [] theta = Inr theta"
| "pdm_loop time signal binsize covershift Nbin Ncover D freq (i # ks) theta =
     andthen (pdm_theta time signal binsize covershift Nbin Ncover D (freq ! i) (theta ! i))
       (\<lambda>th. pdm_loop time signal binsize covershift Nbin Ncover D freq ks (theta[i := th]))"

definition pdm_py ::
  "float64 list \<Rightarrow> float64 list \<Rightarrow> real \<Rightarrow> real \<Rightarrow> real \<Rightarrow> int \<Rightarrow> int \<Rightarrow> real \<Rightarrow>
   error + (float64 list \<times> float64 list)" where
  "pdm_py time signal f0 fn df Nbin Ncover D =
     andthen (np_arange f0 (fn + df) df) (\<lambda>freq.
     let Nfreq = length freq in
     andthen (py_div 1 (of_int Nbin)) (\<lambda>binsize.
     andthen (py_div 1 (of_int (Nbin * Ncover))) (\<lambda>covershift.
     andthen (pdm_loop time signal binsize covershift Nbin Ncover D freq [0..<Nfreq]
                (replicate Nfreq (Fin 0))) (\<lambda>theta.
     Inr (freq, map (\<lambda>th. fdiv th (np_var signal)) theta)))))"

section \<open>Box least squares\<close>

text \<open>
  \<^verbatim>\<open>np.linspace(start, stop, num)\<close>, as the numpy releases did that take a float for
  \<open>num\<close>: \<open>num\<close> is cut to an integer; then, with the end point included, the values
  are \<^verbatim>\<open>arange(0, num) * step + start\<close> and the last one is set to \<open>stop\<close>.
\<close>

definition np_linspace :: "float64 \<Rightarrow> float64 \<Rightarrow> real \<Rightarrow> float64 list" where
  "np_linspace start stop num =
     (let k = py_int num in
      if k \<le> 0 then []
      else if k = 1 then [start]
      else
        let step = fdiv (fsub stop start) (Fin (of_int (k - 1)));
            y = map (\<lambda>i. fadd (fmul (Fin (real i)) step) start) [0..<nat k]
        in y[nat k - 1 := stop])"

type_synonym eebls_routine =
  "float64 list \<Rightarrow> float64 list \<Rightarrow> float64 list \<Rightarrow> float64 list \<Rightarrow> real \<Rightarrow> float64 \<Rightarrow> real \<Rightarrow>
   int \<Rightarrow> real \<Rightarrow> real \<Rightarrow> nat \<Rightarrow> float64 list \<times> float64 \<times> float64 \<times> int \<times> int"

text \<open>\<^verbatim>\<open>if f0<2./T: f0=2./T\<close>\<close>

definition bls_f0 :: "float64 \<Rightarrow> real \<Rightarrow> float64" where
  "bls_f0 T f0 = (if flt (Fin f0) (fdiv (Fin 2) T) then fdiv (Fin 2) T else Fin f0)"

definition bls ::
  "eebls_routine \<Rightarrow> float64 list \<Rightarrow> float64 list \<Rightarrow> real \<Rightarrow> real \<Rightarrow> real \<Rightarrow> int \<Rightarrow> real \<Rightarrow> real \<Rightarrow>
   error + (float64 list \<times> float64 list)" where
  "bls eebls tms signal f0 fn df nb qmi qma =
     (let n = length tms in
      andthen (ptp tms) (\<lambda>T.
      let u = replicate n (Fin 0);
          v = replicate n (Fin 0) in
      andthen (py_div (fn - f0) df) (\<lambda>nf.
      let f0' = bls_f0 T f0;
          (pw, depth, qtran, in1, in2) = eebls tms signal u v nf f0' df nb qmi qma n;
          frequencies = np_linspace f0' (Fin fn) nf
      in Inr (frequencies, pw))))"

section \<open>The specification's words\<close>

text \<open>
  The number of samples of a frequency grid, as the specification gives it:
  \<open>N = floor((fn - f0)/df + 0.001) + 1\<close>.
\<close>

definition spec_grid_count :: "real \<Rightarrow> real \<Rightarrow> real \<Rightarrow> nat" where
  "spec_grid_count f0 fn df = nat (\<lfloor>(fn - f0) / df + 0.001\<rfloor> + 1)"

text \<open>
  The normalisation policy of the specification, for a raw statistic \<open>S\<close>, the sample
  count \<open>n\<close>, the variance \<open>v\<close> of the signal and the time span \<open>T\<close>.
\<close>

definition spec_normalization ::
  "string \<Rightarrow> nat \<Rightarrow> float64 \<Rightarrow> float64 \<Rightarrow> float64 list \<Rightarrow> float64 list" where
  "spec_normalization mode n v T S =
     (if mode = ''amplitude''
      then map (\<lambda>s. fmul (fsqrt (fdiv (Fin 4) (Fin (real n)))) (fsqrt s)) S
      else if mode = ''density''
      then map (\<lambda>s. fmul (fmul (fdiv (Fin 4) (Fin (real n))) s) T) S
      else if mode = ''distribution''
      then map (\<lambda>s. fdiv s v) S
      else S)"

text \<open>
  The window function of the specification at the frequency \<open>f\<close>:
  \<open>((\<Sum> cos(2\<pi> f t))\<^sup>2 + (\<Sum> sin(2\<pi> f t))\<^sup>2) / N\<^sup>2\<close>.
\<close>

definition spec_window :: "float64 list \<Rightarrow> float64 \<Rightarrow> float64" where
  "spec_window time f =
     fdiv (fadd (fpow2 (np_sum (map (\<lambda>t. fcos (fmul (fmul (Fin (2 * pi)) f) t)) time)))
                (fpow2 (np_sum (map (\<lambda>t. fsin (fmul (fmul (Fin (2 * pi)) f) t)) time))))
          (Fin ((real (length time))\<^sup>2))"

text \<open>
  The weighted sine fit of the specification. For times \<open>ts\<close>, observations \<open>ys\<close> and
  weights \<open>ws\<close>, the amplitudes \<open>A\<close> and \<open>B\<close> of the model
  \<open>A sin(2\<pi> f t) + B cos(2\<pi> f t)\<close> solve the normal equations of the weighted least
  squares problem: both partial derivatives of \<open>\<Sum> w (y - A sin - B cos)\<^sup>2\<close> vanish.
\<close>

definition normal_equations ::
  "real list \<Rightarrow> real list \<Rightarrow> real list \<Rightarrow> real \<Rightarrow> real \<Rightarrow> real \<Rightarrow> bool" where
  "normal_equations ts ys ws f A B =
     ((\<Sum>(t, y, w)\<leftarrow>zip ts (zip ys ws).
         w * sin (2 * pi * f * t) * (y - A * sin (2 * pi * f * t) - B * cos (2 * pi * f * t))) = 0 \<and>
      (\<Sum>(t, y, w)\<leftarrow>zip ts (zip ys ws).
         w * cos (2 * pi * f * t) * (y - A * sin (2 * pi * f * t) - B * cos (2 * pi * f * t))) = 0)"

text \<open>\<open>\<Sum> w x y\<close>, and the denominator \<open>a11 a22 - a12 a21\<close> of the fit.\<close>

definition wsum :: "real list \<Rightarrow> real list \<Rightarrow> real list \<Rightarrow> real" where
  "wsum ws xs ys = (\<Sum>(w, x, y)\<leftarrow>zip ws (zip xs ys). w * x * y)"

definition fit_denominator :: "real list \<Rightarrow> real list \<Rightarrow> real \<Rightarrow> real" where
  "fit_denominator ts ws f =
     (let s = map (\<lambda>t. sin (2 * pi * f * t)) ts;
          c = map (\<lambda>t. cos (2 * pi * f * t)) ts
      in wsum ws s s * wsum ws c c - wsum ws s c * wsum ws s c)"

text \<open>
  The same fit in the arithmetic of doubles, as the specification words it: the sums
  \<open>a11 = \<Sum> w sin sin\<close>, \<open>a12 = \<Sum> w sin cos\<close>, \<open>a21 = \<Sum> w cos sin\<close>,
  \<open>a22 = \<Sum> w cos cos\<close>, \<open>b1 = \<Sum> w y sin\<close>, \<open>b2 = \<Sum> w y cos\<close>, the denominator
  \<open>a11 a22 - a12 a21\<close>, the two amplitudes by Cramer's rule, and the statistic
  \<open>A\<^sup>2 + B\<^sup>2\<close>.
\<close>

definition wsum64 :: "float64 list \<Rightarrow> float64 list \<Rightarrow> float64 list \<Rightarrow> float64" where
  "wsum64 ws xs ys = np_sum (map (\<lambda>(w, x, y). fmul (fmul w x) y) (zip ws (zip xs ys)))"

definition spec_sine_fit ::
  "float64 list \<Rightarrow> float64 list \<Rightarrow> float64 list \<Rightarrow> float64 \<Rightarrow> float64" where
  "spec_sine_fit time signal weight f =
     (let s = map (\<lambda>t. fsin (fmul (fmul (Fin (2 * pi)) f) t)) time;
          c = map (\<lambda>t. fcos (fmul (fmul (Fin (2 * pi)) f) t)) time;
          a11 = wsum64 weight s s;
          a12 = wsum64 weight s c;
          a21 = wsum64 weight c s;
          a22 = wsum64 weight c c;
          b1 = wsum64 weight signal s;
          b2 = wsum64 weight signal c;
          den = fsub (fmul a11 a22) (fmul a12 a21);
          A = fdiv (fsub (fmul b1 a22) (fmul b2 a12)) den;
          B = fdiv (fsub (fmul b2 a11) (fmul b1 a21)) den
      in fadd (fmul A A) (fmul B B))"

section \<open>Notions for the proofs\<close>

text \<open>The variance of a list of reals: the mean of the squared deviations from the mean.\<close>

definition var_real :: "real list \<Rightarrow> real" where
  "var_real rs = (\<Sum>x\<leftarrow>rs. (x - sum_list rs / real (length rs))\<^sup>2) / real (length rs)"

text \<open>
  Two runs of the phase dispersion loop, on a signal and on that signal times \<open>c\<close>, are
  compared by these relations: the accumulated \<^verbatim>\<open>theta[i]\<close> of the second is \<open>c\<^sup>2\<close>
  times that of the first and the counts of empty bins agree; a normalised \<^verbatim>\<open>theta[i]\<close>
  is scaled likewise, or is the same NaN or infinity in both.
\<close>

definition scaled_state :: "real \<Rightarrow> float64 \<times> int \<Rightarrow> float64 \<times> int \<Rightarrow> bool" where
  "scaled_state c st st' = (snd st' = snd st \<and> (\<exists>r. fst st = Fin r \<and> fst st' = Fin (c\<^sup>2 * r)))"

definition scaled_value :: "real \<Rightarrow> float64 \<Rightarrow> float64 \<Rightarrow> bool" where
  "scaled_value c x x' = ((\<exists>r. x = Fin r \<and> x' = Fin (c\<^sup>2 * r)) \<or> (x' = x \<and> \<not> isfinite x))"

section \<open>Stand-ins for the compiled routines\<close>

text \<open>
  The theorems hold for any compiled routine. To run the model on a concrete input, these
  stand-ins take the place of the routines: the frequency array is the grid
  \<open>f0 + k * df\<close>, and every statistic is the value \<open>c\<close>.
\<close>

definition flat_scar2 :: "float64 \<Rightarrow> scar2_routine" where
  "flat_scar2 c signal tms f0 df f1 s1 ss sc ss2 sc2 =
     (map (\<lambda>k. Fin (f0 + real k * df)) [0..<length f1], replicate (length s1) c)"

text \<open>
  A stand-in whose first statistic is not defined: a NaN, as \<open>0/0\<close> gives, followed by
  the value \<open>c\<close>.
\<close>

definition nanfirst_scar2 :: "float64 \<Rightarrow> scar2_routine" where
  "nanfirst_scar2 c signal tms f0 df f1 s1 ss sc ss2 sc2 =
     (map (\<lambda>k. Fin (f0 + real k * df)) [0..<length f1], (replicate (length s1) c)[0 := NaN])"

definition flat_scar3 :: "float64 \<Rightarrow> scar3_routine" where
  "flat_scar3 c signal tms f0 df f1 s1 ss sc ss2 sc2 w =
     (map (\<lambda>k. Fin (f0 + real k * df)) [0..<length f1], replicate (length s1) c)"

definition flat_deeming1 :: "float64 \<Rightarrow> deeming1_routine" where
  "flat_deeming1 c tms signal f0 df nf =
     (map (\<lambda>k. Fin (f0 + real k * df)) [0..<nat nf], replicate (nat nf) c)"

definition flat_eebls :: "float64 \<Rightarrow> eebls_routine" where
  "flat_eebls c tms signal u v nf f0 df nb qmi qma n =
     (replicate (nat (py_int nf)) c, Fin 0, Fin 0, 0, 0)"

section \<open>Auxiliary facts\<close>

subsection \<open>Sequencing and finite values\<close>

lemma andthen_Inl [simp]: "andthen (Inl e) f = Inl e"
  by (simp add: andthen_def)

lemma andthen_Inr [simp]: "andthen (Inr x) f = f x"
  by (simp add: andthen_def)

lemma foldl_fadd_Fin: "foldl fadd (Fin a) (map Fin rs) = Fin (a + sum_list rs)"
  by (induction rs arbitrary: a) (simp_all add: add.assoc)

lemma np_sum_Fin: "np_sum (map Fin rs) = Fin (sum_list rs)"
  by (simp add: np_sum_def foldl_fadd_Fin)

lemma finite_list: "list_all isfinite xs \<Longrightarrow> \<exists>rs. xs = map Fin rs"
proof (induction xs)
  case Nil
  then show ?case by simp
next
  case (Cons x xs)
  then obtain rs where "xs = map Fin rs" by auto
  moreover from Cons.prems obtain a where "x = Fin a" by (cases x) simp_all
  ultimately have "x # xs = map Fin (a # rs)" by simp
  then show ?case by (rule exI)
qed

lemma np_mean_Fin: "rs \<noteq> [] \<Longrightarrow> np_mean (map Fin rs) = Fin (sum_list rs / real (length rs))"
  by (simp add: np_mean_def np_sum_Fin)

lemma np_var_Fin:
  assumes "rs \<noteq> []"
  shows "np_var (map Fin rs) = Fin (var_real rs)"
proof -
  let ?g = "\<lambda>x. (x - sum_list rs / real (length rs))\<^sup>2"
  have eq: "map (\<lambda>x. fpow2 (fsub x (np_mean (map Fin rs)))) (map Fin rs) = map Fin (map ?g rs)"
    using assms by (simp add: np_mean_Fin fpow2_def fsub_def power2_eq_square)
  have "np_var (map Fin rs) = np_mean (map Fin (map ?g rs))"
    unfolding np_var_def eq ..
  also have "\<dots> = Fin (sum_list (map ?g rs) / real (length (map ?g rs)))"
    using assms by (intro np_mean_Fin) simp
  finally show ?thesis by (simp add: var_real_def)
qed


subsection \<open>The time span\<close>

lemma ptp_nonempty: "tms \<noteq> [] \<Longrightarrow> \<exists>T. ptp tms = Inr T"
  by (cases tms) (simp_all add: ptp_def)

lemma ptp_Inr_nonempty: "ptp tms = Inr T \<Longrightarrow> tms \<noteq> []"
  by (auto simp: ptp_def)

lemma foldl_fmax_Fin: "foldl fmax (Fin a) (map Fin rs) = Fin (foldl max a rs)"
  by (induction rs arbitrary: a) (simp_all add: fmax_def max_def)

lemma foldl_fmin_Fin: "foldl fmin (Fin a) (map Fin rs) = Fin (foldl min a rs)"
  by (induction rs arbitrary: a) (simp_all add: fmin_def min_def)

lemma foldl_max_ge: "(a::real) \<le> foldl max a rs"
proof (induction rs arbitrary: a)
  case (Cons r rs)
  have "a \<le> max a r" by simp
  also have "\<dots> \<le> foldl max (max a r) rs" by (rule Cons.IH)
  finally show ?case by simp
qed simp

lemma foldl_min_le: "foldl min a rs \<le> (a::real)"
proof (induction rs arbitrary: a)
  case (Cons r rs)
  have "foldl min (min a r) rs \<le> min a r" by (rule Cons.IH)
  also have "\<dots> \<le> a" by simp
  finally show ?case by simp
qed simp

lemma ptp_finite:
  assumes "list_all isfinite tms" "tms \<noteq> []"
  shows "\<exists>t. 0 \<le> t \<and> ptp tms = Inr (Fin t)"
proof -
  obtain rs where rs: "tms = map Fin rs" using finite_list[OF assms(1)] by blast
  with assms(2) obtain a r where ar: "rs = a # r" by (cases rs) auto
  have "ptp tms = Inr (Fin (foldl max a r - foldl min a r))"
    by (simp add: rs ar ptp_def foldl_fmax_Fin foldl_fmin_Fin fsub_def)
  moreover have "foldl min a r \<le> foldl max a r"
    using foldl_min_le[of a r] foldl_max_ge[of a r] by linarith
  ultimately show ?thesis by auto
qed

subsection \<open>The grid\<close>

lemma grid_size_pos:
  assumes "f0 < fn" "0 < df"
  shows "grid_size f0 fn df = Inr (\<lfloor>(fn - f0) / df + 0.001\<rfloor> + 1)"
proof -
  have "0 \<le> (fn - f0) / df + 0.001" using assms by simp
  then show ?thesis
    using assms by (simp add: grid_size_def py_div_def py_int_def)
qed

lemma grid_count_nonneg:
  fixes f0 fn df :: real
  assumes "f0 < fn" "0 < df"
  shows "0 \<le> \<lfloor>(fn - f0) / df + 0.001\<rfloor>"
proof -
  have "0 \<le> (fn - f0) / df + 0.001" using assms by simp
  then show ?thesis by simp
qed

lemma spec_grid_count_pos:
  fixes f0 fn df :: real
  assumes "f0 < fn" "0 < df"
  shows "0 < spec_grid_count f0 fn df"
  using grid_count_nonneg[OF assms] by (simp add: spec_grid_count_def del: zero_le_floor)

lemma np_zeros_count:
  fixes f0 fn df :: real
  assumes "f0 < fn" "0 < df"
  shows "np_zeros (\<lfloor>(fn - f0) / df + 0.001\<rfloor> + 1) = Inr (replicate (spec_grid_count f0 fn df) (Fin 0))"
proof -
  have "\<not> \<lfloor>(fn - f0) / df + 0.001\<rfloor> + 1 < 0"
    using grid_count_nonneg[OF assms] by linarith
  then show ?thesis by (simp add: np_zeros_def spec_grid_count_def del: zero_le_floor)
qed

lemma count_1_2_1: "spec_grid_count 1 2 1 = 2"
  by (simp add: spec_grid_count_def)

lemma count_1_2_half: "spec_grid_count 1 2 (1/2) = 3"
  by (simp add: spec_grid_count_def)

subsection \<open>Runs of the classical periodogram and of Deeming's\<close>

lemma load_logger: "load_global ''logger'' = Inl NameError"
  by (simp add: load_global_def module_globals_def builtins_def)

lemma scargle_weighted_isl: "isl (scargle ka kb tms signal f0 fn df nrm (Some w))"
  by (simp add: scargle_def scargle_routine_def load_logger andthen_def split: sum.splits)

lemma scargle_weighted: 
  assumes "tms \<noteq> []" "f0 < fn" "0 < df"
  shows  "scargle ka kb tms signal f0 fn df nrm (Some w) = Inl NameError"
proof -
  obtain T where T: "ptp tms = Inr T" using ptp_nonempty[OF assms(1)] by blast
  have "\<not> \<lfloor>(fn - f0) / df + 0.001\<rfloor> + 1 < 0"
    using grid_count_nonneg[OF assms(2,3)] by linarith
  then show ?thesis using grid_size_pos[OF assms(2,3)] T
    by (simp add: scargle_def scargle_routine_def load_logger np_zeros_def del: zero_le_floor)
qed

lemma zero_first_id: "s1 \<noteq> [] \<Longrightarrow> zero_first s1 = Inr s1"
  by (cases s1) (auto simp: zero_first_def truthy_def feq_def)

lemma scargle_unweighted:
  assumes "ptp tms = Inr T" "f0 < fn" "0 < df"
    and "ka signal tms f0 df (replicate (spec_grid_count f0 fn df) (Fin 0))
           (replicate (spec_grid_count f0 fn df) (Fin 0)) (replicate (spec_grid_count f0 fn df) (Fin 0))
           (replicate (spec_grid_count f0 fn df) (Fin 0)) (replicate (spec_grid_count f0 fn df) (Fin 0))
           (replicate (spec_grid_count f0 fn df) (Fin 0)) = (f1, S)"
    and "S \<noteq> []"
  shows "scargle ka kb tms signal f0 fn df nrm None =
           Inr (f1, rescale nrm (fsqrt (Fin (4 / real (length tms)))) signal T S)"
proof -
  have "tms \<noteq> []" using assms(1) by (rule ptp_Inr_nonempty)
  then have "real (length tms) \<noteq> 0" by simp
  then show ?thesis
    using assms(1,4,5) grid_size_pos[OF assms(2,3)] np_zeros_count[OF assms(2,3)]
    by (simp add: scargle_def scargle_routine_def zero_first_id py_div_def)
qed

lemma scargle_run:
  assumes "ptp tms = Inr T" "f0 < fn" "0 < df"
    and "z = replicate (spec_grid_count f0 fn df) (Fin 0)"
    and "ka signal tms f0 df z z z z z z = (f1, S)" "S \<noteq> []"
  shows "scargle ka kb tms signal f0 fn df nrm None =
           Inr (f1, rescale nrm (fsqrt (Fin (4 / real (length tms)))) signal T S)"
  using assms(5) scargle_unweighted[where ka = ka, OF assms(1-3) _ assms(6)]
  unfolding assms(4) by simp

lemma deeming_run:
  assumes "ptp tms = Inr T" "f0 < fn" "0 < df"
    and "kd tms signal f0 df (int (spec_grid_count f0 fn df)) = (g1, R)"
  shows "deeming kd tms signal f0 fn df nrm =
           Inr (g1, rescale nrm (fsqrt (Fin (4 / real (length tms)))) signal T
                      (map (\<lambda>s. fdiv s (Fin (real (length tms)))) R))"
proof -
  have "tms \<noteq> []" using assms(1) by (rule ptp_Inr_nonempty)
  then have n: "real (length tms) \<noteq> 0" by simp
  have "int (spec_grid_count f0 fn df) = \<lfloor>(fn - f0) / df + 0.001\<rfloor> + 1"
    using grid_count_nonneg[OF assms(2,3)] by (simp add: spec_grid_count_def del: zero_le_floor)
  then show ?thesis
    using assms(1,4) grid_size_pos[OF assms(2,3)] n
    by (simp add: deeming_def py_div_def Let_def)
qed

lemma rescale_spec:
  assumes "0 < n"
  shows "rescale nrm (fsqrt (Fin (4 / real n))) signal T S = spec_normalization nrm n (np_var signal) T S"
proof -
  have "fdiv (Fin 4) (Fin (real n)) = Fin (4 / real n)" using assms by simp
  moreover have "fpow2 (fsqrt (Fin (4 / real n))) = Fin (4 / real n)"
    by (simp add: fpow2_def)
  ultimately show ?thesis by (simp add: rescale_def spec_normalization_def)
qed

lemma length_rescale: "length (rescale nrm fct signal T S) = length S"
  by (simp add: rescale_def)

text \<open>The definitions to unfold when a run is evaluated on a concrete input.\<close>

lemmas run_defs = scargle_def scargle_routine_def deeming_def ptp_def fmax_def fmin_def fsub_def
  grid_size_def py_div_def py_int_def np_zeros_def flat_scar2_def flat_deeming1_def zero_first_def
  truthy_def feq_def rescale_def np_var_def np_mean_def np_sum_def fpow2_def Let_def
  eval_nat_numeral

subsection \<open>Box least squares\<close>

lemma bls_f0_ge:
  assumes "0 \<le> t"
  shows "fle (fdiv (Fin 2) (Fin t)) (bls_f0 (Fin t) f0)"
  using assms by (auto simp: bls_f0_def fle_def feq_def)

lemma bls_f0_finite: "0 < t \<Longrightarrow> \<exists>s. bls_f0 (Fin t) f0 = Fin s"
  by (simp add: bls_f0_def)

lemma hd_np_linspace:
  assumes "1 \<le> num"
  shows "hd (np_linspace (Fin s) (Fin e) num) = Fin s"
proof -
  let ?k = "py_int num"
  have k: "1 \<le> ?k" using assms by (simp add: py_int_def le_floor_iff)
  show ?thesis
  proof (cases "?k = 1")
    case True
    then show ?thesis by (simp add: np_linspace_def)
  next
    case False
    with k have k2: "2 \<le> ?k" by simp
    let ?step = "fdiv (fsub (Fin e) (Fin s)) (Fin (of_int (?k - 1)))"
    let ?y = "map (\<lambda>i. fadd (fmul (Fin (real i)) ?step) (Fin s)) [0..<nat ?k]"
    have st: "?step = Fin ((e - s) / of_int (?k - 1))" using k2 by (simp add: fsub_def)
    have len: "length (?y[nat ?k - 1 := Fin e]) = nat ?k" by simp
    have "np_linspace (Fin s) (Fin e) num = ?y[nat ?k - 1 := Fin e]"
      using k2 False by (simp add: np_linspace_def Let_def)
    moreover have "hd (?y[nat ?k - 1 := Fin e]) = (?y[nat ?k - 1 := Fin e]) ! 0"
      using k2 len by (intro hd_conv_nth) auto
    moreover have "(?y[nat ?k - 1 := Fin e]) ! 0 = ?y ! 0" using k2 by simp
    moreover have "?y ! 0 = Fin s" using k2 unfolding st by simp
    ultimately show ?thesis by simp
  qed
qed

subsection \<open>The window function\<close>

lemma window_loop_length: "length (window_loop time freq ks w) = length w"
  by (induction ks arbitrary: w) simp_all

lemma window_loop_nth:
  "j < length w \<Longrightarrow>
   window_loop time freq ks w ! j =
     (if j \<in> set ks
      then fadd (fpow2 (np_sum (cos_wave (freq ! j) time))) (fpow2 (np_sum (sin_wave (freq ! j) time)))
      else w ! j)"
proof (induction ks arbitrary: w)
  case Nil
  then show ?case by simp
next
  case (Cons i ks)
  then show ?case by (simp add: nth_list_update)
qed

lemma windowfunction_nth:
  assumes "i < length freq"
  shows "windowfunction time freq ! i = spec_window time (freq ! i)"
proof -
  have "i < length (window_loop time freq [0..<length freq] (np_empty_like freq))"
    using assms by (simp add: window_loop_length np_empty_like_def)
  then show ?thesis
    using assms
    by (simp add: windowfunction_def Let_def window_loop_nth np_empty_like_def spec_window_def
        cos_wave_def sin_wave_def)
qed

lemma windowfunction_map: "windowfunction time freq = map (spec_window time) freq"
proof (rule nth_equalityI)
  show "length (windowfunction time freq) = length (map (spec_window time) freq)"
    by (simp add: windowfunction_def Let_def window_loop_length np_empty_like_def)
next
  fix i assume "i < length (windowfunction time freq)"
  then have "i < length freq"
    by (simp add: windowfunction_def Let_def window_loop_length np_empty_like_def)
  then show "windowfunction time freq ! i = map (spec_window time) freq ! i"
    by (simp add: windowfunction_nth)
qed

lemma spec_window_zero:
  assumes "rs \<noteq> []"
  shows "spec_window (map Fin rs) (Fin 0) = Fin 1"
proof -
  have c: "map (\<lambda>t. fcos (fmul (fmul (Fin (2 * pi)) (Fin 0)) t)) (map Fin rs) = map Fin (map (\<lambda>_. 1) rs)"
    by simp
  have s: "map (\<lambda>t. fsin (fmul (fmul (Fin (2 * pi)) (Fin 0)) t)) (map Fin rs) = map Fin (map (\<lambda>_. 0) rs)"
    by simp
  have n: "real (length rs) \<noteq> 0" using assms by simp
  have "sum_list (map (\<lambda>_. 1::real) rs) = real (length rs)"
    by (induction rs) simp_all
  moreover have "sum_list (map (\<lambda>_. 0::real) rs) = 0" by simp
  ultimately show ?thesis
    unfolding spec_window_def c s np_sum_Fin using n by (simp add: fpow2_def power2_eq_square)
qed

subsection \<open>The weighted sine fit\<close>

lemma np_mul_same_length:
  "length xs = length ys \<Longrightarrow> np_mul xs ys = Inr (map2 fmul xs ys)"
  by (simp add: np_mul_def)

lemma sum3_same_length:
  assumes "length a = length b" "length c = length b"
  shows "sum3 a b c = Inr (np_sum (map2 fmul (map2 fmul a b) c))"
  using assms by (simp add: sum3_def np_mul_same_length)

lemma map2_fmul_Fin:
  "map2 fmul (map Fin xs) (map Fin ys) = map Fin (map2 (*) xs ys)"
  by (induction xs ys rule: list_induct2') simp_all

lemma sum_list_map2_map2:
  assumes "length ws = length xs" "length xs = length ys"
  shows "sum_list (map2 (*) (map2 (*) ws xs) ys) = wsum ws xs ys"
  using assms by (induction ws xs ys rule: list_induct3) (simp_all add: wsum_def)

lemma sum3_Fin:
  assumes "length ws = length xs" "length xs = length ys"
  shows "sum3 (map Fin ws) (map Fin xs) (map Fin ys) = Inr (Fin (wsum ws xs ys))"
proof -
  have "sum3 (map Fin ws) (map Fin xs) (map Fin ys) =
          Inr (np_sum (map2 fmul (map2 fmul (map Fin ws) (map Fin xs)) (map Fin ys)))"
    using assms by (intro sum3_same_length) simp_all
  then show ?thesis
    by (simp only: map2_fmul_Fin np_sum_Fin sum_list_map2_map2[OF assms])
qed

lemma sin_wave_Fin: "sin_wave (Fin f) (map Fin ts) = map Fin (map (\<lambda>t. sin (2 * pi * f * t)) ts)"
  by (simp add: sin_wave_def)

lemma cos_wave_Fin: "cos_wave (Fin f) (map Fin ts) = map Fin (map (\<lambda>t. cos (2 * pi * f * t)) ts)"
  by (simp add: cos_wave_def)

lemma sine_fit_Inr:
  assumes "length signal = length time" "length weight = length time"
  shows "\<exists>v. sine_fit time signal weight f = Inr v"
proof -
  have l: "length (sin_wave f time) = length time" "length (cos_wave f time) = length time"
    by (simp_all add: sin_wave_def cos_wave_def)
  show ?thesis
    using assms l by (simp add: sine_fit_def Let_def sum3_same_length)
qed

lemma ne_sum_expand:
  assumes "length ts = length ys" "length ys = length ws"
  shows "(\<Sum>(t, y, w)\<leftarrow>zip ts (zip ys ws). w * p t * (y - A * s t - B * c t)) =
           wsum ws ys (map p ts) - A * wsum ws (map s ts) (map p ts) - B * wsum ws (map c ts) (map p ts)"
  using assms by (induction ts ys ws rule: list_induct3) (simp_all add: wsum_def algebra_simps)

lemma wsum_commute:
  assumes "length ws = length xs" "length xs = length ys"
  shows "wsum ws xs ys = wsum ws ys xs"
  using assms by (induction ws xs ys rule: list_induct3) (simp_all add: wsum_def)

lemma normal_equations_iff:
  fixes ts ys ws :: "real list" and f :: real
  assumes "length ys = length ts" "length ws = length ts"
  defines "S \<equiv> map (\<lambda>t. sin (2 * pi * f * t)) ts" and "C \<equiv> map (\<lambda>t. cos (2 * pi * f * t)) ts"
  shows "normal_equations ts ys ws f A B \<longleftrightarrow>
           (wsum ws S S * A + wsum ws S C * B = wsum ws ys S \<and>
            wsum ws S C * A + wsum ws C C * B = wsum ws ys C)"
proof -
  have l: "length ts = length ys" "length ys = length ws" using assms(1,2) by simp_all
  have cs: "wsum ws C S = wsum ws S C"
    using assms(2) by (intro wsum_commute) (simp_all add: S_def C_def)
  show ?thesis
    unfolding normal_equations_def
      ne_sum_expand[OF l, where p = "\<lambda>t. sin (2 * pi * f * t)" and s = "\<lambda>t. sin (2 * pi * f * t)" and c = "\<lambda>t. cos (2 * pi * f * t)"]
      ne_sum_expand[OF l, where p = "\<lambda>t. cos (2 * pi * f * t)" and s = "\<lambda>t. sin (2 * pi * f * t)" and c = "\<lambda>t. cos (2 * pi * f * t)"]
    unfolding S_def[symmetric] C_def[symmetric] cs
    by (auto simp: algebra_simps)
qed

lemma cramer_solves:
  fixes a11 a12 a22 b1 b2 :: real
  assumes "a11 * a22 - a12 * a12 \<noteq> 0"
  defines "d \<equiv> a11 * a22 - a12 * a12"
  shows "a11 * ((b1 * a22 - b2 * a12) / d) + a12 * ((b2 * a11 - b1 * a12) / d) = b1"
    and "a12 * ((b1 * a22 - b2 * a12) / d) + a22 * ((b2 * a11 - b1 * a12) / d) = b2"
proof -
  have d: "d \<noteq> 0" using assms by simp
  have "a11 * ((b1 * a22 - b2 * a12) / d) + a12 * ((b2 * a11 - b1 * a12) / d)
        = (b1 * (a11 * a22 - a12 * a12)) / d"
    by (simp add: algebra_simps add_divide_distrib[symmetric] diff_divide_distrib[symmetric])
  also have "\<dots> = b1" using d by (simp add: d_def)
  finally show "a11 * ((b1 * a22 - b2 * a12) / d) + a12 * ((b2 * a11 - b1 * a12) / d) = b1" .
  have "a12 * ((b1 * a22 - b2 * a12) / d) + a22 * ((b2 * a11 - b1 * a12) / d)
        = (b2 * (a11 * a22 - a12 * a12)) / d"
    by (simp add: algebra_simps add_divide_distrib[symmetric] diff_divide_distrib[symmetric])
  also have "\<dots> = b2" using d by (simp add: d_def)
  finally show "a12 * ((b1 * a22 - b2 * a12) / d) + a22 * ((b2 * a11 - b1 * a12) / d) = b2" .
qed

lemma cramer_unique:
  fixes a11 a12 a22 b1 b2 A B :: real
  assumes "a11 * a22 - a12 * a12 \<noteq> 0"
    and "a11 * A + a12 * B = b1" "a12 * A + a22 * B = b2"
  shows "A = (b1 * a22 - b2 * a12) / (a11 * a22 - a12 * a12)"
    and "B = (b2 * a11 - b1 * a12) / (a11 * a22 - a12 * a12)"
proof -
  have "b1 * a22 - b2 * a12 = A * (a11 * a22 - a12 * a12)"
    unfolding assms(2)[symmetric] assms(3)[symmetric] by (simp add: algebra_simps)
  then show "A = (b1 * a22 - b2 * a12) / (a11 * a22 - a12 * a12)" using assms(1) by simp
  have "b2 * a11 - b1 * a12 = B * (a11 * a22 - a12 * a12)"
    unfolding assms(2)[symmetric] assms(3)[symmetric] by (simp add: algebra_simps)
  then show "B = (b2 * a11 - b1 * a12) / (a11 * a22 - a12 * a12)" using assms(1) by simp
qed

lemma sine_fit_Fin:
  fixes ts ys ws :: "real list" and f :: real
  assumes "length ys = length ts" "length ws = length ts"
    and "fit_denominator ts ws f \<noteq> 0"
  defines "S \<equiv> map (\<lambda>t. sin (2 * pi * f * t)) ts" and "C \<equiv> map (\<lambda>t. cos (2 * pi * f * t)) ts"
  defines "d \<equiv> wsum ws S S * wsum ws C C - wsum ws S C * wsum ws S C"
  shows "sine_fit (map Fin ts) (map Fin ys) (map Fin ws) (Fin f) =
           Inr (Fin (((wsum ws ys S * wsum ws C C - wsum ws ys C * wsum ws S C) / d)\<^sup>2 +
                     ((wsum ws ys C * wsum ws S S - wsum ws ys S * wsum ws S C) / d)\<^sup>2))"
proof -
  have lS: "length S = length ts" and lC: "length C = length ts"
    by (simp_all add: S_def C_def)
  have a11: "sum3 (map Fin ws) (map Fin S) (map Fin S) = Inr (Fin (wsum ws S S))"
    using assms(2) lS by (intro sum3_Fin) simp_all
  have a12: "sum3 (map Fin ws) (map Fin S) (map Fin C) = Inr (Fin (wsum ws S C))"
    using assms(2) lS lC by (intro sum3_Fin) simp_all
  have a22: "sum3 (map Fin ws) (map Fin C) (map Fin C) = Inr (Fin (wsum ws C C))"
    using assms(2) lC by (intro sum3_Fin) simp_all
  have b1: "sum3 (map Fin ws) (map Fin ys) (map Fin S) = Inr (Fin (wsum ws ys S))"
    using assms(1,2) lS by (intro sum3_Fin) simp_all
  have b2: "sum3 (map Fin ws) (map Fin ys) (map Fin C) = Inr (Fin (wsum ws ys C))"
    using assms(1,2) lC by (intro sum3_Fin) simp_all
  have d: "d \<noteq> 0" using assms(3) by (simp add: fit_denominator_def Let_def d_def S_def C_def)
  have den: "fsub (fmul (Fin (wsum ws S S)) (Fin (wsum ws C C)))
                  (fmul (Fin (wsum ws S C)) (Fin (wsum ws S C))) = Fin d"
    by (simp add: fsub_def d_def)
  show ?thesis
    unfolding sine_fit_def sin_wave_Fin cos_wave_Fin S_def[symmetric] C_def[symmetric] Let_def
      a11 a12 a22 b1 b2 andthen_Inr den
    using d by (simp add: fsub_def power2_eq_square)
qed

lemma fmul_commute: "fmul a b = fmul b a"
  by (cases a; cases b) (simp_all add: mult.commute)

lemma fmul_swap: "fmul (fmul a b) c = fmul (fmul a c) b"
  by (cases a; cases b; cases c)
    (auto simp: zero_less_mult_iff mult_less_0_iff not_less mult.assoc mult.left_commute mult.commute
       dest: order.antisym)

lemma map2_map2_fmul:
  assumes "length ws = length xs" "length xs = length ys"
  shows "map2 fmul (map2 fmul ws xs) ys = map (\<lambda>(w, x, y). fmul (fmul w x) y) (zip ws (zip xs ys))"
  using assms by (induction ws xs ys rule: list_induct3) simp_all

lemma sum3_wsum64:
  assumes "length ws = length xs" "length xs = length ys"
  shows "sum3 ws xs ys = Inr (wsum64 ws xs ys)"
  using assms by (simp add: sum3_same_length map2_map2_fmul wsum64_def)

lemma wsum64_commute:
  assumes "length ws = length xs" "length xs = length ys"
  shows "wsum64 ws xs ys = wsum64 ws ys xs"
proof -
  have "map (\<lambda>(w, x, y). fmul (fmul w x) y) (zip ws (zip xs ys)) =
        map (\<lambda>(w, x, y). fmul (fmul w x) y) (zip ws (zip ys xs))"
    using assms by (induction ws xs ys rule: list_induct3) (simp_all add: fmul_swap)
  then show ?thesis by (simp add: wsum64_def)
qed

lemma sine_fit_spec:
  assumes "length signal = length time" "length weight = length time"
  shows "sine_fit time signal weight f = Inr (spec_sine_fit time signal weight f)"
proof -
  let ?s = "sin_wave f time" and ?c = "cos_wave f time"
  have l: "length ?s = length time" "length ?c = length time"
    by (simp_all add: sin_wave_def cos_wave_def)
  have cs: "wsum64 weight ?c ?s = wsum64 weight ?s ?c"
    using assms l by (intro wsum64_commute) simp_all
  have a11: "sum3 weight ?s ?s = Inr (wsum64 weight ?s ?s)"
    using assms l by (intro sum3_wsum64) simp_all
  have a12: "sum3 weight ?s ?c = Inr (wsum64 weight ?s ?c)"
    using assms l by (intro sum3_wsum64) simp_all
  have a22: "sum3 weight ?c ?c = Inr (wsum64 weight ?c ?c)"
    using assms l by (intro sum3_wsum64) simp_all
  have b1: "sum3 weight signal ?s = Inr (wsum64 weight signal ?s)"
    using assms l by (intro sum3_wsum64) simp_all
  have b2: "sum3 weight signal ?c = Inr (wsum64 weight signal ?c)"
    using assms l by (intro sum3_wsum64) simp_all
  have "sine_fit time signal weight f =
        Inr (let a11 = wsum64 weight ?s ?s; a12 = wsum64 weight ?s ?c; a21 = wsum64 weight ?c ?s;
                 a22 = wsum64 weight ?c ?c; b1 = wsum64 weight signal ?s; b2 = wsum64 weight signal ?c;
                 den = fsub (fmul a11 a22) (fmul a12 a21);
                 A = fdiv (fsub (fmul b1 a22) (fmul b2 a12)) den;
                 B = fdiv (fsub (fmul b2 a11) (fmul b1 a21)) den
             in fadd (fmul A A) (fmul B B))"
    unfolding sine_fit_def Let_def a11 a12 a22 b1 b2 andthen_Inr cs ..
  then show ?thesis
    by (simp add: spec_sine_fit_def sin_wave_def cos_wave_def Let_def)
qed

lemma weightedpower_loop_run:
  assumes "\<forall>i\<in>set ks. \<exists>v.
             (if \<not> feq (freq ! i) (Fin 0) then sine_fit time signal weight (freq ! i)
              else Inr (fdiv (np_sum signal) (Fin (real (length signal))))) = Inr v"
  shows "\<exists>r. weightedpower_loop time signal weight freq ks res = Inr r \<and> length r = length res \<and>
           (\<forall>j<length res.
              (j \<in> set ks \<longrightarrow>
                 (if \<not> feq (freq ! j) (Fin 0) then sine_fit time signal weight (freq ! j)
                  else Inr (fdiv (np_sum signal) (Fin (real (length signal))))) = Inr (r ! j)) \<and>
              (j \<notin> set ks \<longrightarrow> r ! j = res ! j))"
  using assms
proof (induction ks arbitrary: res)
  case Nil
  then show ?case by simp
next
  case (Cons i ks)
  let ?step = "\<lambda>i. if \<not> feq (freq ! i) (Fin 0) then sine_fit time signal weight (freq ! i)
              else Inr (fdiv (np_sum signal) (Fin (real (length signal))))"
  from Cons.prems obtain v where v: "?step i = Inr v" by auto
  from Cons.prems have "\<forall>i\<in>set ks. \<exists>v. ?step i = Inr v" by simp
  from Cons.IH[OF this, of "res[i := v]"]
  obtain r where r: "weightedpower_loop time signal weight freq ks (res[i := v]) = Inr r"
    "length r = length res"
    "\<forall>j<length res. (j \<in> set ks \<longrightarrow> ?step j = Inr (r ! j)) \<and> (j \<notin> set ks \<longrightarrow> r ! j = (res[i := v]) ! j)"
    by auto
  have "weightedpower_loop time signal weight freq (i # ks) res = Inr r"
    using v r(1) by simp
  moreover have "\<forall>j<length res. (j \<in> set (i # ks) \<longrightarrow> ?step j = Inr (r ! j)) \<and>
      (j \<notin> set (i # ks) \<longrightarrow> r ! j = res ! j)"
  proof (intro allI impI)
    fix j assume j: "j < length res"
    show "(j \<in> set (i # ks) \<longrightarrow> ?step j = Inr (r ! j)) \<and> (j \<notin> set (i # ks) \<longrightarrow> r ! j = res ! j)"
    proof (cases "j \<in> set ks")
      case True
      then show ?thesis using r(3) j by auto
    next
      case False
      then have "r ! j = (res[i := v]) ! j" using r(3) j by auto
      then show ?thesis using False v j by (auto simp: nth_list_update)
    qed
  qed
  ultimately show ?case using r(2) by blast
qed

lemmas fit_defs = weightedpower_def sine_fit_def sum3_def np_mul_def sin_wave_def cos_wave_def
  np_sum_def fsub_def feq_def Let_def

text \<open>
  Where the denominator is zero the fit returns a NaN or an infinity: two times one period
  apart, at the frequency \<open>1\<close>.
\<close>

lemma weightedpower_degenerate:
  "weightedpower [Fin 0, Fin 1] [Fin 1, Fin 2] [Fin 1, Fin 1] [Fin 1] = Inr [NaN] \<and>
   fit_denominator [0, 1] [1, 1] 1 = 0"
  by (simp add: fit_defs fit_denominator_def wsum_def)

subsection \<open>Phase dispersion minimisation on a scaled signal\<close>

lemma np_compress_map:
  "np_compress m (map f a) = (case np_compress m a of Inl e \<Rightarrow> Inl e | Inr b \<Rightarrow> Inr (map f b))"
proof -
  let ?idx = "filter (\<lambda>i. m ! i) [0..<length m]"
  show ?thesis
  proof (cases "list_all (\<lambda>i. i < length a) ?idx")
    case True
    then have "map (\<lambda>i. map f a ! i) ?idx = map f (map (\<lambda>i. a ! i) ?idx)"
      by (simp add: list_all_iff)
    with True show ?thesis by (simp add: np_compress_def Let_def)
  next
    case False
    then show ?thesis by (simp add: np_compress_def Let_def)
  qed
qed

lemma var_real_scale: "var_real (map ((*) c) bs) = c\<^sup>2 * var_real bs"
proof -
  have s: "sum_list (map ((*) c) bs) = c * sum_list bs"
    by (simp add: sum_list_const_mult)
  have "(\<Sum>x\<leftarrow>map ((*) c) bs. (x - c * sum_list bs / real (length bs))\<^sup>2) =
        (\<Sum>x\<leftarrow>bs. c\<^sup>2 * (x - sum_list bs / real (length bs))\<^sup>2)"
    by (simp add: comp_def power_mult_distrib[symmetric] right_diff_distrib)
  also have "\<dots> = c\<^sup>2 * (\<Sum>x\<leftarrow>bs. (x - sum_list bs / real (length bs))\<^sup>2)"
    by (simp add: sum_list_const_mult)
  finally show ?thesis by (simp add: var_real_def s)
qed

lemma andthen_rel:
  assumes "rel_sum (=) R m m'"
    and "\<And>x x'. R x x' \<Longrightarrow> rel_sum (=) Q (f x) (f' x')"
  shows "rel_sum (=) Q (andthen m f) (andthen m' f')"
  using assms by (cases m; cases m') (simp_all add: andthen_def)

lemma pdm_bin_scaled:
  assumes "scaled_state c st st'"
  shows "rel_sum (=) (scaled_state c)
           (pdm_bin (map Fin rs) phase binsize covershift k n st)
           (pdm_bin (map Fin (map ((*) c) rs)) phase binsize covershift k n st')"
proof -
  let ?left = "fmod1 (real k * binsize + real n * covershift)"
  let ?right = "fmod1 (real (k + 1) * binsize + real n * covershift)"
  let ?m = "map (in_bin ?left ?right) phase"
  from assms obtain r where st: "fst st = Fin r" "fst st' = Fin (c\<^sup>2 * r)" "snd st' = snd st"
    by (auto simp: scaled_state_def)
  have m1: "np_compress ?m (map Fin rs) =
            (case np_compress ?m rs of Inl e \<Rightarrow> Inl e | Inr b \<Rightarrow> Inr (map Fin b))"
    by (rule np_compress_map)
  have m2: "np_compress ?m (map Fin (map ((*) c) rs)) =
            (case np_compress ?m rs of Inl e \<Rightarrow> Inl e | Inr b \<Rightarrow> Inr (map Fin (map ((*) c) b)))"
    unfolding map_map comp_def by (rule np_compress_map)
  show ?thesis
  proof (cases "np_compress ?m rs")
    case (Inl e)
    then show ?thesis unfolding pdm_bin_def Let_def m1 m2 by simp
  next
    case (Inr b)
    show ?thesis
    proof (cases "b = []")
      case True
      then show ?thesis unfolding pdm_bin_def Let_def m1 m2 Inr using st
        by (simp add: scaled_state_def)
    next
      case False
      then have v: "np_var (map Fin b) = Fin (var_real b)"
        "np_var (map Fin (map ((*) c) b)) = Fin (c\<^sup>2 * var_real b)"
        using np_var_Fin[of b] np_var_Fin[of "map ((*) c) b"] by (simp_all add: var_real_scale)
      let ?q = "r + (real (length b) - 1) * var_real b"
      have 1: "pdm_bin (map Fin rs) phase binsize covershift k n st = Inr (Fin ?q, snd st)"
        unfolding pdm_bin_def Let_def m1 Inr using st False v(1) by simp
      have "Fin (c\<^sup>2 * r + (real (length b) - 1) * (c\<^sup>2 * var_real b)) = Fin (c\<^sup>2 * ?q)"
        by (simp add: algebra_simps)
      then have 2: "pdm_bin (map Fin (map ((*) c) rs)) phase binsize covershift k n st' =
                 Inr (Fin (c\<^sup>2 * ?q), snd st)"
        unfolding pdm_bin_def Let_def m2 Inr using st False v(2) by simp
      show ?thesis unfolding 1 2 by (simp add: scaled_state_def)
    qed
  qed
qed

lemma pdm_covers_scaled:
  assumes "scaled_state c st st'"
  shows "rel_sum (=) (scaled_state c)
           (pdm_covers (map Fin rs) phase binsize covershift k ns st)
           (pdm_covers (map Fin (map ((*) c) rs)) phase binsize covershift k ns st')"
  using assms
proof (induction ns arbitrary: st st')
  case Nil
  then show ?case by simp
next
  case (Cons n ns)
  show ?case
    unfolding pdm_covers.simps
    by (rule andthen_rel[OF pdm_bin_scaled[OF Cons.prems]]) (rule Cons.IH)
qed

lemma pdm_bins_scaled:
  assumes "scaled_state c st st'"
  shows "rel_sum (=) (scaled_state c)
           (pdm_bins (map Fin rs) phase binsize covershift ks ns st)
           (pdm_bins (map Fin (map ((*) c) rs)) phase binsize covershift ks ns st')"
  using assms
proof (induction ks arbitrary: st st')
  case Nil
  then show ?case by simp
next
  case (Cons k ks)
  show ?case
    unfolding pdm_bins.simps
    by (rule andthen_rel[OF pdm_covers_scaled[OF Cons.prems]]) (rule Cons.IH)
qed

lemma fdiv_scaled:
  assumes "c \<noteq> 0"
  shows "scaled_value c (fdiv (Fin r) (Fin d)) (fdiv (Fin (c\<^sup>2 * r)) (Fin d))"
proof -
  have c2: "0 < c\<^sup>2" using assms by simp
  show ?thesis
  proof (cases "d = 0")
    case True
    then show ?thesis using c2 assms
      by (auto simp: scaled_value_def zero_less_mult_iff)
  next
    case False
    then show ?thesis by (simp add: scaled_value_def)
  qed
qed

lemma pdm_theta_scaled:
  assumes "c \<noteq> 0"
  shows "rel_sum (=) (scaled_value c)
           (pdm_theta time (map Fin rs) binsize covershift Nbin Ncover D f (Fin 0))
           (pdm_theta time (map Fin (map ((*) c) rs)) binsize covershift Nbin Ncover D f (Fin 0))"
proof -
  have s0: "scaled_state c (Fin 0, 0) (Fin 0, 0)" by (simp add: scaled_state_def)
  show ?thesis
  proof (cases "pdm_phase time f D")
    case (Inl e)
    then show ?thesis by (simp add: pdm_theta_def)
  next
    case (Inr phase)
    have "rel_sum (=) (scaled_value c)
        (andthen (pdm_bins (map Fin rs) phase binsize covershift [0..<nat Nbin] [0..<nat Ncover] (Fin 0, 0))
          (\<lambda>(th', Nempty). Inr (fdiv th' (Fin (real_of_int (Ncover * int (length time) - (Ncover * Nbin - Nempty)))))))
        (andthen (pdm_bins (map Fin (map ((*) c) rs)) phase binsize covershift [0..<nat Nbin] [0..<nat Ncover] (Fin 0, 0))
          (\<lambda>(th', Nempty). Inr (fdiv th' (Fin (real_of_int (Ncover * int (length time) - (Ncover * Nbin - Nempty)))))))"
    proof (rule andthen_rel[OF pdm_bins_scaled[OF s0]])
      fix x x' :: "float64 \<times> int"
      assume "scaled_state c x x'"
      then obtain r where "fst x = Fin r" "fst x' = Fin (c\<^sup>2 * r)" "snd x' = snd x"
        by (auto simp: scaled_state_def)
      then show "rel_sum (=) (scaled_value c)
          (case x of (th', Nempty) \<Rightarrow> Inr (fdiv th' (Fin (real_of_int (Ncover * int (length time) - (Ncover * Nbin - Nempty))))))
          (case x' of (th', Nempty) \<Rightarrow> Inr (fdiv th' (Fin (real_of_int (Ncover * int (length time) - (Ncover * Nbin - Nempty))))))"
        by (cases x; cases x') (simp del: fdiv.simps add: fdiv_scaled[OF assms])
    qed
    then show ?thesis by (simp add: pdm_theta_def Let_def Inr)
  qed
qed

lemma pdm_loop_scaled:
  assumes "c \<noteq> 0"
    and "length theta' = length theta"
    and "\<forall>j<length theta. j \<in> set ks \<longrightarrow> theta ! j = Fin 0 \<and> theta' ! j = Fin 0"
    and "\<forall>j<length theta. j \<notin> set ks \<longrightarrow> scaled_value c (theta ! j) (theta' ! j)"
    and "distinct ks" "\<forall>i\<in>set ks. i < length theta"
  shows "rel_sum (=) (list_all2 (scaled_value c))
           (pdm_loop time (map Fin rs) binsize covershift Nbin Ncover D freq ks theta)
           (pdm_loop time (map Fin (map ((*) c) rs)) binsize covershift Nbin Ncover D freq ks theta')"
  using assms(2-)
proof (induction ks arbitrary: theta theta')
  case Nil
  then show ?case by (simp add: list_all2_conv_all_nth)
next
  case (Cons i ks)
  have i: "i < length theta" "theta ! i = Fin 0" "theta' ! i = Fin 0"
    using Cons.prems by auto
  show ?case
    unfolding pdm_loop.simps i(2,3)
  proof (rule andthen_rel[OF pdm_theta_scaled[OF assms(1)]])
    fix x x' assume x: "scaled_value c x x'"
    show "rel_sum (=) (list_all2 (scaled_value c))
            (pdm_loop time (map Fin rs) binsize covershift Nbin Ncover D freq ks (theta[i := x]))
            (pdm_loop time (map Fin (map ((*) c) rs)) binsize covershift Nbin Ncover D freq ks (theta'[i := x']))"
    proof (rule Cons.IH)
      show "length (theta'[i := x']) = length (theta[i := x])" using Cons.prems(1) by simp
      show "\<forall>j<length (theta[i := x]). j \<in> set ks \<longrightarrow>
              theta[i := x] ! j = Fin 0 \<and> theta'[i := x'] ! j = Fin 0"
      proof (intro allI impI)
        fix j assume j: "j < length (theta[i := x])" "j \<in> set ks"
        then have "j \<noteq> i" using Cons.prems(4) by auto
        moreover have "theta ! j = Fin 0 \<and> theta' ! j = Fin 0"
          using Cons.prems(2) j by simp
        ultimately show "theta[i := x] ! j = Fin 0 \<and> theta'[i := x'] ! j = Fin 0" by simp
      qed
      show "\<forall>j<length (theta[i := x]). j \<notin> set ks \<longrightarrow>
              scaled_value c (theta[i := x] ! j) (theta'[i := x'] ! j)"
      proof (intro allI impI)
        fix j assume j: "j < length (theta[i := x])" "j \<notin> set ks"
        show "scaled_value c (theta[i := x] ! j) (theta'[i := x'] ! j)"
        proof (cases "j = i")
          case True
          then show ?thesis using x j(1) Cons.prems(1) by simp
        next
          case False
          then have "scaled_value c (theta ! j) (theta' ! j)" using Cons.prems(3) j by simp
          with False show ?thesis by simp
        qed
      qed
      show "distinct ks" using Cons.prems(4) by simp
      show "\<forall>k\<in>set ks. k < length (theta[i := x])" using Cons.prems(5) by simp
    qed
  qed
qed

lemma np_var_Nil: "np_var [] = NaN"
  by (simp add: np_var_def np_mean_def np_sum_def)

lemma np_var_scaled:
  "np_var (map Fin rs) = (if rs = [] then NaN else Fin (var_real rs))"
  "np_var (map Fin (map ((*) c) rs)) = (if rs = [] then NaN else Fin (c\<^sup>2 * var_real rs))"
  using np_var_Fin[of rs] np_var_Fin[of "map ((*) c) rs"]
  by (auto simp: var_real_scale np_var_def np_mean_def np_sum_def)

lemma fdiv_scaled_value:
  assumes "c \<noteq> 0" "scaled_value c x x'"
  shows "fdiv x' (Fin (c\<^sup>2 * v)) = fdiv x (Fin v)"
proof -
  have c2: "0 < c\<^sup>2" using assms(1) by simp
  from assms(2) consider r where "x = Fin r" "x' = Fin (c\<^sup>2 * r)" | "x' = x" "\<not> isfinite x"
    by (auto simp: scaled_value_def)
  then show ?thesis
  proof cases
    case 1
    then show ?thesis using c2 assms(1) by (auto simp: zero_less_mult_iff)
  next
    case 2
    then show ?thesis using c2 by (cases x) (auto simp: zero_le_mult_iff)
  qed
qed

lemma final_normalisation:
  assumes "c \<noteq> 0" "list_all2 (scaled_value c) theta theta'"
  shows "map (\<lambda>th. fdiv th (np_var (map Fin (map ((*) c) rs)))) theta' =
         map (\<lambda>th. fdiv th (np_var (map Fin rs))) theta"
proof (cases "rs = []")
  case True
  have n: "fdiv a NaN = NaN" for a by (cases a) simp_all
  have l: "length theta' = length theta" using assms(2) by (simp add: list_all2_lengthD)
  have "map (\<lambda>th. fdiv th NaN) theta' = replicate (length theta') NaN"
    by (simp add: n map_replicate_const)
  moreover have "map (\<lambda>th. fdiv th NaN) theta = replicate (length theta) NaN"
    by (simp add: n map_replicate_const)
  ultimately show ?thesis using True l by (simp add: np_var_Nil)
next
  case False
  have "list_all2 (\<lambda>x x'. fdiv x' (Fin (c\<^sup>2 * var_real rs)) = fdiv x (Fin (var_real rs))) theta theta'"
    using assms(2) fdiv_scaled_value[OF assms(1)] by (rule list_all2_mono)
  then have "map (\<lambda>th. fdiv th (Fin (c\<^sup>2 * var_real rs))) theta' =
             map (\<lambda>th. fdiv th (Fin (var_real rs))) theta"
    by (induction theta theta' rule: list_all2_induct) simp_all
  then show ?thesis unfolding np_var_scaled using False by (simp add: var_real_scale)
qed

lemma pdm_py_scaled:
  assumes "c \<noteq> 0"
  shows "pdm_py time (map Fin (map ((*) c) rs)) f0 fn df Nbin Ncover D =
         pdm_py time (map Fin rs) f0 fn df Nbin Ncover D"
proof (cases "np_arange f0 (fn + df) df")
  case (Inl e)
  then show ?thesis by (simp add: pdm_py_def)
next
  case freq: (Inr freq)
  show ?thesis
  proof (cases "py_div 1 (of_int Nbin)")
    case (Inl e)
    then show ?thesis by (simp add: pdm_py_def freq)
  next
    case binsize: (Inr binsize)
    show ?thesis
    proof (cases "py_div 1 (of_int (Nbin * Ncover))")
      case (Inl e)
      then show ?thesis by (simp add: pdm_py_def freq binsize)
    next
      case covershift: (Inr covershift)
      let ?l = "pdm_loop time (map Fin rs) binsize covershift Nbin Ncover D freq [0..<length freq]
                  (replicate (length freq) (Fin 0))"
      let ?l' = "pdm_loop time (map Fin (map ((*) c) rs)) binsize covershift Nbin Ncover D freq
                  [0..<length freq] (replicate (length freq) (Fin 0))"
      have rel: "rel_sum (=) (list_all2 (scaled_value c)) ?l ?l'"
        by (rule pdm_loop_scaled[OF assms]) simp_all
      have "andthen ?l' (\<lambda>theta. Inr (freq, map (\<lambda>th. fdiv th (np_var (map Fin (map ((*) c) rs)))) theta)) =
            andthen ?l (\<lambda>theta. Inr (freq, map (\<lambda>th. fdiv th (np_var (map Fin rs))) theta))"
      proof (cases ?l)
        case (Inl e)
        with rel have "?l' = Inl e" by (cases ?l') simp_all
        with Inl show ?thesis by simp
      next
        case (Inr theta)
        with rel obtain theta' where t: "?l' = Inr theta'" "list_all2 (scaled_value c) theta theta'"
          by (cases ?l') simp_all
        show ?thesis unfolding Inr t(1) using final_normalisation[OF assms t(2)] by simp
      qed
      then show ?thesis
        using freq binsize covershift by (simp add: pdm_py_def Let_def)
    qed
  qed
qed

lemma pdm_py_example:
  "pdm_py [Fin 0, Fin 1] [Fin 1, Fin 3] 1 1 1 2 1 0 = Inr ([Fin 1], [Fin 1])"
proof -
  have a: "np_arange 1 2 1 = Inr [Fin 1]"
    by (simp add: np_arange_def py_div_def)
  have p: "pdm_phase [Fin 0, Fin 1] (Fin 1) 0 = Inr [Fin 0, Fin 0]"
    by (simp add: pdm_phase_def fsub_def fpow2_def py_int_def)
  have v: "np_var [Fin 1, Fin 3] = Fin 1"
    by (simp add: np_var_def np_mean_def np_sum_def fpow2_def fsub_def)
  have b0: "pdm_bin [Fin 1, Fin 3] [Fin 0, Fin 0] (1/2) (1/2) 0 0 (Fin 0, 0) = Inr (Fin 1, 0)"
    by (simp add: pdm_bin_def fmod1_def py_int_def in_bin_def fle_def feq_def np_compress_def v
        eval_nat_numeral)
  have b1: "pdm_bin [Fin 1, Fin 3] [Fin 0, Fin 0] (1/2) (1/2) (Suc 0) 0 (Fin 1, 0) = Inr (Fin 1, 1)"
    by (simp add: pdm_bin_def fmod1_def py_int_def in_bin_def fle_def feq_def np_compress_def
        eval_nat_numeral)
  have bs: "pdm_bins [Fin 1, Fin 3] [Fin 0, Fin 0] (1/2) (1/2) [0..<2] [0] (Fin 0, 0)
              = Inr (Fin 1, 1)"
    by (simp add: eval_nat_numeral b0 b1)
  have t: "pdm_theta [Fin 0, Fin 1] [Fin 1, Fin 3] (1/2) (1/2) 2 1 0 (Fin 1) (Fin 0) = Inr (Fin 1)"
    by (simp add: pdm_theta_def p bs)
  show ?thesis
    by (simp add: pdm_py_def a py_div_def t v)
qed

section \<open>Results\<close>

subsection \<open>The window function\<close>

text \<open>
  C3. At each frequency \<open>f\<close> of the frequency array, \<^verbatim>\<open>windowfunction\<close> returns
  \<open>((\<Sum> cos(2\<pi> f t))\<^sup>2 + (\<Sum> sin(2\<pi> f t))\<^sup>2) / N\<^sup>2\<close>, with \<open>N\<close> the number of times;
  and for times that are finite, at least one of them, the window function of the
  frequency array \<open>[0.0]\<close> is \<open>[1.0]\<close>.
\<close>

theorem windowfunction_spec:
  "windowfunction time freq = map (spec_window time) freq \<and>
   (time \<noteq> [] \<and> list_all isfinite time \<longrightarrow> windowfunction time [Fin 0] = [Fin 1])"
proof -
  have "windowfunction time [Fin 0] = [Fin 1]" if ne: "time \<noteq> []" and fin: "list_all isfinite time"
  proof -
    obtain rs where rs: "time = map Fin rs" using finite_list[OF fin] by blast
    with ne have "rs \<noteq> []" by auto
    then show ?thesis unfolding rs windowfunction_map by (simp add: spec_window_zero)
  qed
  then show ?thesis using windowfunction_map by blast
qed

theorem windowfunction_spec_witness:
  "[Fin 0, Fin (1/2), Fin 3] \<noteq> [] \<and> list_all isfinite [Fin 0, Fin (1/2), Fin 3] \<and>
   windowfunction [Fin 0, Fin (1/2), Fin 3] [Fin 0] = [Fin 1] \<and>
   windowfunction [Fin 0, Fin (1/2)] [Fin 0, Fin 1] = [Fin 1, Fin 0]"
proof -
  have w: "windowfunction [Fin 0, Fin (1/2)] [Fin 0, Fin 1] = [Fin 1, Fin 0]"
    by (simp add: windowfunction_spec[of "[Fin 0, Fin (1/2)]" "[Fin 0, Fin 1]"] spec_window_def
        np_sum_def fpow2_def)
  have h: "[Fin 0, Fin (1/2), Fin 3] \<noteq> [] \<and> list_all isfinite [Fin 0, Fin (1/2), Fin 3]"
    by simp
  with windowfunction_spec[of "[Fin 0, Fin (1/2), Fin 3]" "[Fin 0]"]
  have "windowfunction [Fin 0, Fin (1/2), Fin 3] [Fin 0] = [Fin 1]" by blast
  with h w show ?thesis by blast
qed

subsection \<open>The length of the arrays\<close>

text \<open>
  C1, as amended. The classical periodogram and Deeming's compute the size of the grid as
  \<^verbatim>\<open>int((fn-f0)/df+0.001)+1\<close>. For a grid with \<open>f0 < fn\<close> and \<open>0 < df\<close>, a
  time series that is not empty, and compiled routines that return arrays as long as the
  buffers (or the count) they are given, both functions return a frequency array and a
  statistic array of the length \<open>floor((fn - f0)/df + 0.001) + 1\<close>, in every
  normalisation mode.
\<close>

theorem grid_length:
  assumes "tms \<noteq> []" "f0 < fn" "0 < df"
    and "z = replicate (spec_grid_count f0 fn df) (Fin 0)"
    and "length (fst (ka signal tms f0 df z z z z z z)) = length z"
    and "length (snd (ka signal tms f0 df z z z z z z)) = length z"
    and "length (fst (kd tms signal f0 df (int (spec_grid_count f0 fn df)))) = spec_grid_count f0 fn df"
    and "length (snd (kd tms signal f0 df (int (spec_grid_count f0 fn df)))) = spec_grid_count f0 fn df"
  shows "(\<exists>f s. scargle ka kb tms signal f0 fn df nrm None = Inr (f, s) \<and>
            length f = spec_grid_count f0 fn df \<and> length s = spec_grid_count f0 fn df) \<and>
         (\<exists>f s. deeming kd tms signal f0 fn df nrm = Inr (f, s) \<and>
            length f = spec_grid_count f0 fn df \<and> length s = spec_grid_count f0 fn df)"
proof -
  obtain T where T: "ptp tms = Inr T" using ptp_nonempty[OF assms(1)] by blast
  obtain f1 S where k: "ka signal tms f0 df z z z z z z = (f1, S)" by (cases "ka signal tms f0 df z z z z z z")
  obtain g1 R where d: "kd tms signal f0 df (int (spec_grid_count f0 fn df)) = (g1, R)"
    by (cases "kd tms signal f0 df (int (spec_grid_count f0 fn df))")
  have pos: "0 < spec_grid_count f0 fn df" using assms(2,3) by (rule spec_grid_count_pos)
  have lf: "length f1 = spec_grid_count f0 fn df" and ls: "length S = spec_grid_count f0 fn df"
    using assms(5,6) k by (simp_all add: assms(4))
  then have "S \<noteq> []" using pos by auto
  from scargle_run[where ka = ka, OF T assms(2,3,4) k this]
  have 1: "\<exists>f s. scargle ka kb tms signal f0 fn df nrm None = Inr (f, s) \<and>
            length f = spec_grid_count f0 fn df \<and> length s = spec_grid_count f0 fn df"
    using lf ls by (simp add: length_rescale)
  have 2: "\<exists>f s. deeming kd tms signal f0 fn df nrm = Inr (f, s) \<and>
            length f = spec_grid_count f0 fn df \<and> length s = spec_grid_count f0 fn df"
    using deeming_run[where kd = kd, OF T assms(2,3) d] assms(7,8) d by (simp add: length_rescale)
  from 1 2 show ?thesis by blast
qed

theorem grid_length_witness:
  "[Fin 0, Fin 1] \<noteq> [] \<and> (1::real) < 2 \<and> (0::real) < 1 \<and>
   scargle (flat_scar2 (Fin 1)) (flat_scar3 (Fin 1)) [Fin 0, Fin 1] [Fin 1, Fin 3] 1 2 1 ''power'' None
     = Inr ([Fin 1, Fin 2], [Fin 1, Fin 1]) \<and>
   deeming (flat_deeming1 (Fin 1)) [Fin 0, Fin 1] [Fin 1, Fin 3] 1 2 1 ''power''
     = Inr ([Fin 1, Fin 2], [Fin (1/2), Fin (1/2)]) \<and>
   spec_grid_count 1 2 1 = 2"
proof -
  have h1: "[Fin 0, Fin 1] \<noteq> []" by simp
  have h2: "(1::real) < 2" by simp
  have h3: "(0::real) < 1" by simp
  let ?z = "replicate (spec_grid_count 1 2 1) (Fin 0)"
  let ?k = "flat_scar2 (Fin 1)"
  let ?d = "flat_deeming1 (Fin 1)"
  have h5: "length (fst (?k [Fin 1, Fin 3] [Fin 0, Fin 1] 1 1 ?z ?z ?z ?z ?z ?z)) = length ?z"
    by (simp add: flat_scar2_def)
  have h6: "length (snd (?k [Fin 1, Fin 3] [Fin 0, Fin 1] 1 1 ?z ?z ?z ?z ?z ?z)) = length ?z"
    by (simp add: flat_scar2_def)
  have h7: "length (fst (?d [Fin 0, Fin 1] [Fin 1, Fin 3] 1 1 (int (spec_grid_count 1 2 1)))) = spec_grid_count 1 2 1"
    by (simp add: flat_deeming1_def)
  have h8: "length (snd (?d [Fin 0, Fin 1] [Fin 1, Fin 3] 1 1 (int (spec_grid_count 1 2 1)))) = spec_grid_count 1 2 1"
    by (simp add: flat_deeming1_def)
  from grid_length[where ka = ?k and kd = ?d and kb = "flat_scar3 (Fin 1)" and nrm = "''power''",
      OF h1 h2 h3 refl h5 h6 h7 h8]
  show ?thesis by (simp add: run_defs count_1_2_1)
qed

text \<open>
  C1, as stated, speaks of every estimator and fails for box least squares: there the
  count is \<^verbatim>\<open>nf = (fn-f0)/df\<close>, without the tolerance and without the one added, and
  the frequencies are \<^verbatim>\<open>np.linspace(f0,fn,nf)\<close>. For \<open>f0 = 1\<close>, \<open>fn = 2\<close>,
  \<open>df = 1/2\<close> and times spanning \<open>T = 2\<close>, the two arrays have two elements, where the
  formula gives three.
\<close>

theorem bls_length_counterexample:
  "bls (flat_eebls (Fin 0)) [Fin 0, Fin 2] [Fin 0, Fin 0] 1 2 (1/2) 50 (1/200) (3/4) =
     Inr ([Fin 1, Fin 2], [Fin 0, Fin 0]) \<and>
   spec_grid_count 1 2 (1/2) = 3"
  by (simp add: bls_def ptp_def fmax_def fmin_def fsub_def py_div_def bls_f0_def flat_eebls_def
      np_linspace_def py_int_def count_1_2_half Let_def eval_nat_numeral)

subsection \<open>The normalisation modes\<close>

text \<open>
  C2. Let \<open>S\<close> be the raw statistic: for the classical periodogram the array that
  \<^verbatim>\<open>scar2\<close> returns, for Deeming's the array that \<^verbatim>\<open>deeming1\<close> returns divided
  by \<open>n\<close>. With \<open>n\<close> the number of times and \<open>T\<close> their span, both functions return
  the frequencies of the routine and the statistic that the specification's policy
  gives: \<open>S\<close> itself in mode \<^verbatim>\<open>power\<close>, \<open>sqrt(4/n) * sqrt(S)\<close> in mode
  \<^verbatim>\<open>amplitude\<close>, \<open>(4/n) * S * T\<close> in mode \<^verbatim>\<open>density\<close> and \<open>S\<close> divided by the
  variance of the signal in mode \<^verbatim>\<open>distribution\<close>.
\<close>

theorem normalization_modes:
  assumes "ptp tms = Inr T" "f0 < fn" "0 < df"
    and "z = replicate (spec_grid_count f0 fn df) (Fin 0)"
    and "ka signal tms f0 df z z z z z z = (f1, S)" "S \<noteq> []"
    and "kd tms signal f0 df (int (spec_grid_count f0 fn df)) = (g1, R)"
  shows "scargle ka kb tms signal f0 fn df mode None =
           Inr (f1, spec_normalization mode (length tms) (np_var signal) T S) \<and>
         deeming kd tms signal f0 fn df mode =
           Inr (g1, spec_normalization mode (length tms) (np_var signal) T
                      (map (\<lambda>s. fdiv s (Fin (real (length tms)))) R))"
proof -
  have "tms \<noteq> []" using assms(1) by (rule ptp_Inr_nonempty)
  then have n: "0 < length tms" by simp
  show ?thesis
    unfolding scargle_run[where ka = ka, OF assms(1-6)]
      deeming_run[where kd = kd, OF assms(1-3,7)] rescale_spec[OF n]
    by simp
qed

theorem normalization_modes_witness:
  "ptp [Fin 0, Fin 1, Fin 2, Fin 3] = Inr (Fin 3) \<and> (1::real) < 2 \<and> (0::real) < 1 \<and>
   scargle (flat_scar2 (Fin 4)) (flat_scar3 (Fin 4)) [Fin 0, Fin 1, Fin 2, Fin 3]
       [Fin 1, Fin 3, Fin 1, Fin 3] 1 2 1 ''amplitude'' None
     = Inr ([Fin 1, Fin 2], [Fin 2, Fin 2]) \<and>
   deeming (flat_deeming1 (Fin 4)) [Fin 0, Fin 1, Fin 2, Fin 3]
       [Fin 1, Fin 3, Fin 1, Fin 3] 1 2 1 ''density''
     = Inr ([Fin 1, Fin 2], [Fin 3, Fin 3])"
proof -
  let ?t = "[Fin 0, Fin 1, Fin 2, Fin 3]"
  let ?s = "[Fin 1, Fin 3, Fin 1, Fin 3]"
  let ?z = "replicate (spec_grid_count 1 2 1) (Fin 0)"
  have h1: "ptp ?t = Inr (Fin 3)" by (simp add: ptp_def fmax_def fmin_def fsub_def)
  have h2: "(1::real) < 2" by simp
  have h3: "(0::real) < 1" by simp
  have h5: "flat_scar2 (Fin 4) ?s ?t 1 1 ?z ?z ?z ?z ?z ?z = ([Fin 1, Fin 2], [Fin 4, Fin 4])"
    by (simp add: flat_scar2_def count_1_2_1 eval_nat_numeral)
  have h6: "[Fin 4, Fin 4] \<noteq> []" by simp
  have h7: "flat_deeming1 (Fin 4) ?t ?s 1 1 (int (spec_grid_count 1 2 1)) = ([Fin 1, Fin 2], [Fin 4, Fin 4])"
    by (simp add: flat_deeming1_def count_1_2_1 eval_nat_numeral)
  have a: "spec_normalization ''amplitude'' (length ?t) (np_var ?s) (Fin 3) [Fin 4, Fin 4] = [Fin 2, Fin 2]"
    by (simp add: spec_normalization_def)
  have d: "spec_normalization ''density'' (length ?t) (np_var ?s) (Fin 3)
             (map (\<lambda>s. fdiv s (Fin (real (length ?t)))) [Fin 4, Fin 4]) = [Fin 3, Fin 3]"
    by (simp add: spec_normalization_def)
  from normalization_modes[where ka = "flat_scar2 (Fin 4)" and kb = "flat_scar3 (Fin 4)"
      and kd = "flat_deeming1 (Fin 4)" and mode = "''amplitude''", OF h1 h2 h3 refl h5 h6 h7]
    normalization_modes[where ka = "flat_scar2 (Fin 4)" and kb = "flat_scar3 (Fin 4)"
      and kd = "flat_deeming1 (Fin 4)" and mode = "''density''", OF h1 h2 h3 refl h5 h6 h7]
  show ?thesis unfolding a d using h1 by simp
qed

subsection \<open>A constant signal\<close>




subsection \<open>The weighted sine fit\<close>

text \<open>
  C5. For times, observations and weights of equal length, \<^verbatim>\<open>weightedpower\<close> returns
  one value for each frequency. At a frequency \<open>0\<close> the value is the mean of the signal.
  At any other frequency it is \<open>A\<^sup>2 + B\<^sup>2\<close>, with \<open>A\<close> and \<open>B\<close> given by Cramer's rule
  over the denominator \<open>a11 a22 - a12 a21\<close>, in the arithmetic of doubles; and when the
  arrays and the frequency are finite and that denominator is not zero, \<open>A\<close> and \<open>B\<close>
  are the one solution of the normal equations of the weighted fit of
  \<open>A sin(2\<pi> f t) + B cos(2\<pi> f t)\<close>.
\<close>

theorem weightedpower_fit:
  assumes "length signal = length time" "length weight = length time"
  shows "\<exists>r. weightedpower time signal weight freq = Inr r \<and> length r = length freq \<and>
           (\<forall>i<length freq.
              (freq ! i = Fin 0 \<longrightarrow> r ! i = np_mean signal) \<and>
              (freq ! i \<noteq> Fin 0 \<longrightarrow> r ! i = spec_sine_fit time signal weight (freq ! i)) \<and>
              (\<forall>ts ys ws f.
                 time = map Fin ts \<and> signal = map Fin ys \<and> weight = map Fin ws \<and>
                 freq ! i = Fin f \<and> f \<noteq> 0 \<and> fit_denominator ts ws f \<noteq> 0 \<longrightarrow>
                 (\<exists>A B. normal_equations ts ys ws f A B) \<and>
                 (\<forall>A B. normal_equations ts ys ws f A B \<longrightarrow> r ! i = Fin (A\<^sup>2 + B\<^sup>2))))"
proof -
  let ?step = "\<lambda>i. if \<not> feq (freq ! i) (Fin 0) then sine_fit time signal weight (freq ! i)
              else Inr (fdiv (np_sum signal) (Fin (real (length signal))))"
  have "\<forall>i\<in>set [0..<length freq]. \<exists>v. ?step i = Inr v"
    using sine_fit_Inr[OF assms] by simp
  from weightedpower_loop_run[OF this, of "replicate (length freq) (Fin 0)"]
  obtain r where r: "weightedpower time signal weight freq = Inr r" "length r = length freq"
    and step: "\<forall>j<length freq. ?step j = Inr (r ! j)"
    unfolding weightedpower_def by auto
  have "(freq ! i = Fin 0 \<longrightarrow> r ! i = np_mean signal) \<and>
        (freq ! i \<noteq> Fin 0 \<longrightarrow> r ! i = spec_sine_fit time signal weight (freq ! i)) \<and>
        (\<forall>ts ys ws f.
           time = map Fin ts \<and> signal = map Fin ys \<and> weight = map Fin ws \<and>
           freq ! i = Fin f \<and> f \<noteq> 0 \<and> fit_denominator ts ws f \<noteq> 0 \<longrightarrow>
           (\<exists>A B. normal_equations ts ys ws f A B) \<and>
           (\<forall>A B. normal_equations ts ys ws f A B \<longrightarrow> r ! i = Fin (A\<^sup>2 + B\<^sup>2)))"
    if i: "i < length freq" for i
  proof -
    from step i have si: "?step i = Inr (r ! i)" by blast
    have 1: "freq ! i = Fin 0 \<longrightarrow> r ! i = np_mean signal"
      using si by (auto simp: feq_def np_mean_def)
    have 2: "freq ! i \<noteq> Fin 0 \<longrightarrow> r ! i = spec_sine_fit time signal weight (freq ! i)"
      using si sine_fit_spec[OF assms, of "freq ! i"] by (auto simp: feq_def)
    have 3: "(\<exists>A B. normal_equations ts ys ws f A B) \<and>
           (\<forall>A B. normal_equations ts ys ws f A B \<longrightarrow> r ! i = Fin (A\<^sup>2 + B\<^sup>2))"
      if h: "time = map Fin ts \<and> signal = map Fin ys \<and> weight = map Fin ws \<and>
           freq ! i = Fin f \<and> f \<noteq> 0 \<and> fit_denominator ts ws f \<noteq> 0" for ts ys ws f
    proof -
      have len: "length ys = length ts" "length ws = length ts" using assms h by auto
      define S where "S = map (\<lambda>t. sin (2 * pi * f * t)) ts"
      define C where "C = map (\<lambda>t. cos (2 * pi * f * t)) ts"
      define d where "d = wsum ws S S * wsum ws C C - wsum ws S C * wsum ws S C"
      define A0 where "A0 = (wsum ws ys S * wsum ws C C - wsum ws ys C * wsum ws S C) / d"
      define B0 where "B0 = (wsum ws ys C * wsum ws S S - wsum ws ys S * wsum ws S C) / d"
      have d: "d \<noteq> 0" using h by (simp add: fit_denominator_def Let_def d_def S_def C_def)
      from si h have "sine_fit (map Fin ts) (map Fin ys) (map Fin ws) (Fin f) = Inr (r ! i)"
        by (simp add: feq_def)
      then have ri: "r ! i = Fin (A0\<^sup>2 + B0\<^sup>2)"
        using h sine_fit_Fin[OF len, of f]
        by (simp add: A0_def B0_def d_def S_def C_def)
      have iff: "normal_equations ts ys ws f A B \<longleftrightarrow>
             (wsum ws S S * A + wsum ws S C * B = wsum ws ys S \<and>
              wsum ws S C * A + wsum ws C C * B = wsum ws ys C)" for A B
        unfolding S_def C_def using len by (rule normal_equations_iff)
      have "normal_equations ts ys ws f A0 B0"
        unfolding iff A0_def B0_def using cramer_solves[of "wsum ws S S" "wsum ws C C" "wsum ws S C"] d
        by (simp add: d_def)
      then have e: "\<exists>A B. normal_equations ts ys ws f A B" by blast
      have "r ! i = Fin (A\<^sup>2 + B\<^sup>2)" if ne: "normal_equations ts ys ws f A B" for A B
      proof -
        from ne have "A = A0" "B = B0"
          unfolding iff A0_def B0_def d_def
          using cramer_unique[of "wsum ws S S" "wsum ws C C" "wsum ws S C" A B] d
          by (simp_all add: d_def)
        then show ?thesis using ri by simp
      qed
      with e show ?thesis by blast
    qed
    from 1 2 3 show ?thesis by blast
  qed
  with r show ?thesis by blast
qed

theorem weightedpower_fit_witness:
  "length [Fin 1, Fin 2] = length [Fin 0, Fin (1/4)] \<and>
   length [Fin 1, Fin 1] = length [Fin 0, Fin (1/4)] \<and>
   fit_denominator [0, 1/4] [1, 1] 1 = 1 \<and> normal_equations [0, 1/4] [1, 2] [1, 1] 1 2 1 \<and>
   weightedpower [Fin 0, Fin (1/4)] [Fin 1, Fin 2] [Fin 1, Fin 1] [Fin 0, Fin 1] =
     Inr [Fin (3/2), Fin 5]"
proof -
  let ?time = "[Fin 0, Fin (1/4)]" and ?signal = "[Fin 1, Fin 2]" and ?weight = "[Fin 1, Fin 1]"
  let ?freq = "[Fin 0, Fin 1]"
  have h1: "length ?signal = length ?time" by simp
  have h2: "length ?weight = length ?time" by simp
  have d: "fit_denominator [0, 1/4] [1, 1] 1 = 1"
    by (simp add: fit_denominator_def wsum_def)
  have ne: "normal_equations [0, 1/4] [1, 2] [1, 1] 1 2 1"
    by (simp add: normal_equations_def)
  from weightedpower_fit[OF h1 h2, of ?freq]
  obtain r where R:
    "weightedpower ?time ?signal ?weight ?freq = Inr r \<and> length r = length ?freq \<and>
     (\<forall>i<length ?freq.
        (?freq ! i = Fin 0 \<longrightarrow> r ! i = np_mean ?signal) \<and>
        (?freq ! i \<noteq> Fin 0 \<longrightarrow> r ! i = spec_sine_fit ?time ?signal ?weight (?freq ! i)) \<and>
        (\<forall>ts ys ws f.
           ?time = map Fin ts \<and> ?signal = map Fin ys \<and> ?weight = map Fin ws \<and>
           ?freq ! i = Fin f \<and> f \<noteq> 0 \<and> fit_denominator ts ws f \<noteq> 0 \<longrightarrow>
           (\<exists>A B. normal_equations ts ys ws f A B) \<and>
           (\<forall>A B. normal_equations ts ys ws f A B \<longrightarrow> r ! i = Fin (A\<^sup>2 + B\<^sup>2))))"
    by (rule exE)
  from R[THEN conjunct1] R[THEN conjunct2, THEN conjunct1]
  have r: "weightedpower ?time ?signal ?weight ?freq = Inr r" "length r = 2" by simp_all
  have i0: "(0::nat) < length ?freq" and i1: "(1::nat) < length ?freq" by simp_all
  note Q0 = R[THEN conjunct2, THEN conjunct2, THEN spec, of 0, THEN mp, OF i0, THEN conjunct1]
  note Q1 = R[THEN conjunct2, THEN conjunct2, THEN spec, of 1, THEN mp, OF i1, THEN conjunct2,
      THEN conjunct2, THEN spec, of "[0, 1/4]", THEN spec, of "[1, 2]", THEN spec, of "[1, 1]",
      THEN spec, of 1, THEN mp, THEN conjunct2, THEN spec, of 2, THEN spec, of 1, THEN mp]
  from Q0 have r0: "r ! 0 = Fin (3/2)" by (simp add: np_mean_def np_sum_def)
  have "?time = map Fin [0, 1/4] \<and> ?signal = map Fin [1, 2] \<and> ?weight = map Fin [1, 1] \<and>
        ?freq ! 1 = Fin 1 \<and> (1::real) \<noteq> 0 \<and> fit_denominator [0, 1/4] [1, 1] 1 \<noteq> 0"
    using d by simp
  from Q1[OF this ne] have r1: "r ! 1 = Fin 5" by simp
  have "r = [r ! 0, r ! 1]" using r(2) by (cases r; cases "tl r") auto
  with r0 r1 have "r = [Fin (3/2), Fin 5]" by simp
  with r(1) d ne show ?thesis by simp
qed

subsection \<open>Phase dispersion minimisation\<close>

text \<open>
  C6. For a finite signal whose variance is not zero and a constant \<open>c\<close> that is not
  zero, \<^verbatim>\<open>pdm_py\<close> returns the same frequencies and the same \<open>\<theta>\<close> for the signal
  times \<open>c\<close> as for the signal, whatever the times, the grid, \<open>Nbin\<close>, \<open>Ncover\<close>
  and \<open>D\<close>; when one of the two calls raises, the other raises the same exception. A
  \<open>\<theta>\<close> that is a NaN or an infinity, as a zero normalisation count gives, is the same NaN
  or infinity in both.
\<close>

theorem pdm_py_scale_invariant:
  assumes "list_all isfinite signal" "c \<noteq> 0" "np_var signal \<noteq> Fin 0"
  shows "pdm_py time (map (fmul (Fin c)) signal) f0 fn df Nbin Ncover D =
         pdm_py time signal f0 fn df Nbin Ncover D"
proof -
  obtain rs where rs: "signal = map Fin rs" using finite_list[OF assms(1)] by blast
  have e: "map (fmul (Fin c)) (map Fin rs) = map Fin (map ((*) c) rs)" by simp
  show ?thesis unfolding rs e using assms(2) by (rule pdm_py_scaled)
qed

theorem pdm_py_scale_invariant_witness:
  "list_all isfinite [Fin 1, Fin 3] \<and> (2::real) \<noteq> 0 \<and> np_var [Fin 1, Fin 3] \<noteq> Fin 0 \<and>
   pdm_py [Fin 0, Fin 1] [Fin 2, Fin 6] 1 1 1 2 1 0 = Inr ([Fin 1], [Fin 1]) \<and>
   pdm_py [Fin 0, Fin 1] [Fin 1, Fin 3] 1 1 1 2 1 0 = Inr ([Fin 1], [Fin 1])"
proof -
  have h1: "list_all isfinite [Fin 1, Fin 3]" by simp
  have h2: "(2::real) \<noteq> 0" by simp
  have h3: "np_var [Fin 1, Fin 3] \<noteq> Fin 0"
    by (simp add: np_var_def np_mean_def np_sum_def fpow2_def fsub_def)
  have m: "map (fmul (Fin 2)) [Fin 1, Fin 3] = [Fin 2, Fin 6]" by simp
  from pdm_py_scale_invariant[OF h1 h2 h3, of "[Fin 0, Fin 1]" 1 1 1 2 1 0]
  have "pdm_py [Fin 0, Fin 1] [Fin 2, Fin 6] 1 1 1 2 1 0 =
        pdm_py [Fin 0, Fin 1] [Fin 1, Fin 3] 1 1 1 2 1 0"
    unfolding m .
  with h1 h2 h3 pdm_py_example show ?thesis by simp
qed

subsection \<open>The start frequency of box least squares\<close>

text \<open>
  C7. For a time series of finite times that is not empty, with the span
  \<open>T = max - min\<close>, and a step \<open>df\<close> that is not zero, \<^verbatim>\<open>bls\<close> returns; the start
  frequency that it hands to the compiled routine and to \<^verbatim>\<open>np.linspace\<close> is at
  least \<open>2/T\<close>, and is \<open>2/T\<close> whenever the \<open>f0\<close> asked for is below \<open>2/T\<close>. When
  \<open>T\<close> is not zero and the frequency array is not empty, its first element is that
  start frequency.
\<close>

theorem bls_start_frequency:
  assumes "list_all isfinite tms" "ptp tms = Inr T" "df \<noteq> 0"
  shows "bls ke tms signal f0 fn df nb qmi qma =
           Inr (np_linspace (bls_f0 T f0) (Fin fn) ((fn - f0) / df),
                fst (ke tms signal (replicate (length tms) (Fin 0)) (replicate (length tms) (Fin 0))
                       ((fn - f0) / df) (bls_f0 T f0) df nb qmi qma (length tms))) \<and>
         fle (fdiv (Fin 2) T) (bls_f0 T f0) \<and>
         (flt (Fin f0) (fdiv (Fin 2) T) \<longrightarrow> bls_f0 T f0 = fdiv (Fin 2) T) \<and>
         (T \<noteq> Fin 0 \<and> 1 \<le> (fn - f0) / df \<longrightarrow>
            hd (np_linspace (bls_f0 T f0) (Fin fn) ((fn - f0) / df)) = bls_f0 T f0)"
proof -
  have ne: "tms \<noteq> []" using assms(2) by (rule ptp_Inr_nonempty)
  obtain t where t: "0 \<le> t" "ptp tms = Inr (Fin t)" using ptp_finite[OF assms(1) ne] by blast
  with assms(2) have T: "T = Fin t" by simp
  have 1: "bls ke tms signal f0 fn df nb qmi qma =
           Inr (np_linspace (bls_f0 T f0) (Fin fn) ((fn - f0) / df),
                fst (ke tms signal (replicate (length tms) (Fin 0)) (replicate (length tms) (Fin 0))
                       ((fn - f0) / df) (bls_f0 T f0) df nb qmi qma (length tms)))"
    using assms(2,3) by (simp add: bls_def py_div_def Let_def split: prod.splits)
  have 2: "fle (fdiv (Fin 2) T) (bls_f0 T f0)" unfolding T using t(1) by (rule bls_f0_ge)
  have 3: "flt (Fin f0) (fdiv (Fin 2) T) \<longrightarrow> bls_f0 T f0 = fdiv (Fin 2) T"
    by (simp add: bls_f0_def)
  have 4: "T \<noteq> Fin 0 \<and> 1 \<le> (fn - f0) / df \<longrightarrow>
            hd (np_linspace (bls_f0 T f0) (Fin fn) ((fn - f0) / df)) = bls_f0 T f0"
  proof
    assume a: "T \<noteq> Fin 0 \<and> 1 \<le> (fn - f0) / df"
    with T t(1) have "0 < t" by simp
    then obtain s where s: "bls_f0 T f0 = Fin s" unfolding T using bls_f0_finite by blast
    show "hd (np_linspace (bls_f0 T f0) (Fin fn) ((fn - f0) / df)) = bls_f0 T f0"
      unfolding s using a by (intro hd_np_linspace) simp
  qed
  from 1 2 3 4 show ?thesis by blast
qed

theorem bls_start_frequency_witness:
  "list_all isfinite [Fin 0, Fin 4] \<and> ptp [Fin 0, Fin 4] = Inr (Fin 4) \<and> (1/4::real) \<noteq> 0 \<and>
   bls (flat_eebls (Fin 0)) [Fin 0, Fin 4] [Fin 1, Fin 1] (1/4) 1 (1/4) 50 (1/200) (3/4) =
     Inr ([Fin (1/2), Fin (3/4), Fin 1], [Fin 0, Fin 0, Fin 0]) \<and>
   fdiv (Fin 2) (Fin 4) = Fin (1/2) \<and> bls_f0 (Fin 4) (1/4) = Fin (1/2)"
proof -
  have h1: "list_all isfinite [Fin 0, Fin 4]" by simp
  have h2: "ptp [Fin 0, Fin 4] = Inr (Fin 4)" by (simp add: ptp_def fmax_def fmin_def fsub_def)
  have h3: "(1/4::real) \<noteq> 0" by simp
  have b: "bls_f0 (Fin 4) (1/4) = Fin (1/2)" by (simp add: bls_f0_def)
  have l: "np_linspace (Fin (1/2)) (Fin 1) ((1 - 1/4) / (1/4)) = [Fin (1/2), Fin (3/4), Fin 1]"
    by (simp add: np_linspace_def py_int_def fsub_def Let_def eval_nat_numeral)
  from bls_start_frequency[where ke = "flat_eebls (Fin 0)" and signal = "[Fin 1, Fin 1]"
      and ?f0.0 = "1/4" and fn = 1 and nb = 50 and qmi = "1/200" and qma = "3/4", OF h1 h2 h3]
  show ?thesis using h1 h2 unfolding b l by (simp add: flat_eebls_def py_int_def eval_nat_numeral)
qed

subsection \<open>The first statistic\<close>

text \<open>
  C8. The line \<^verbatim>\<open>if not s1[0]: s1[0]=0.\<close> carries the comment that the first amplitude
  may not be defined, and is there to put \<open>0.0\<close> in its place, so that the first
  statistic returned is never a NaN. It tests the truth value of \<^verbatim>\<open>s1[0]\<close>, and a NaN
  evaluates as true: the guard does not fire, and the function returns the NaN as its
  first statistic, in mode \<^verbatim>\<open>power\<close> as the routine gave it and in mode
  \<^verbatim>\<open>amplitude\<close> through the square root. Here the times are \<open>[0, 1]\<close>, the signal is
  \<open>[1, 3]\<close>, the grid starts at the frequency \<open>0\<close>, and the routine returns a first
  statistic that is not defined.
\<close>

theorem first_statistic_nan:
  "truthy NaN \<and>
   zero_first [NaN, Fin 1] = Inr [NaN, Fin 1] \<and>
   scargle (nanfirst_scar2 (Fin 1)) (flat_scar3 (Fin 1)) [Fin 0, Fin 1] [Fin 1, Fin 3] 0 1 1
     ''power'' None = Inr ([Fin 0, Fin 1], [NaN, Fin 1]) \<and>
   scargle (nanfirst_scar2 (Fin 1)) (flat_scar3 (Fin 1)) [Fin 0, Fin 1] [Fin 1, Fin 3] 0 1 1
     ''amplitude'' None = Inr ([Fin 0, Fin 1], [NaN, Fin (sqrt 2)])"
  by (simp add: scargle_def scargle_routine_def ptp_def fmax_def fmin_def fsub_def grid_size_def
      py_div_def py_int_def np_zeros_def nanfirst_scar2_def zero_first_def truthy_def feq_def
      rescale_def Let_def eval_nat_numeral)

subsection \<open>Weights\<close>

text \<open>
  C9. With weights, the classical periodogram never returns a result: the line
  \<^verbatim>\<open>logger.debug('Weighed scargle')\<close> comes before the call of \<^verbatim>\<open>scar3\<close>, and
  \<^verbatim>\<open>logger\<close> is bound neither in the function nor at module scope. For a time series
  that is not empty and a grid with \<open>f0 < fn\<close> and \<open>0 < df\<close>, the statements before
  that line succeed and the exception is \<^verbatim>\<open>NameError\<close>.
\<close>

theorem scargle_weighted_NameError:
  "isl (scargle ka kb tms signal f0 fn df nrm (Some w)) \<and>
   (tms \<noteq> [] \<and> f0 < fn \<and> 0 < df \<longrightarrow>
      scargle ka kb tms signal f0 fn df nrm (Some w) = Inl NameError)"
  using scargle_weighted_isl scargle_weighted by blast

theorem scargle_weighted_NameError_witness:
  "[Fin 0, Fin 1] \<noteq> [] \<and> (1::real) < 2 \<and> (0::real) < 1 \<and>
   scargle (flat_scar2 (Fin 0)) (flat_scar3 (Fin 0)) [Fin 0, Fin 1] [Fin 0, Fin 0] 1 2 1
     ''amplitude'' (Some [Fin 1, Fin 1]) = Inl NameError"
  using scargle_weighted_NameError[of "flat_scar2 (Fin 0)" "flat_scar3 (Fin 0)" "[Fin 0, Fin 1]"
      "[Fin 0, Fin 0]" 1 2 1 "''amplitude''" "[Fin 1, Fin 1]"]
  by simp

subsection \<open>DFTpower\<close>

text \<open>
  C10. Whatever its arguments, \<^verbatim>\<open>DFTpower\<close> raises \<^verbatim>\<open>NameError\<close> and returns no
  power spectrum: the first name its body reads after \<^verbatim>\<open>len(time)\<close>,
  \<^verbatim>\<open>stopfreq\<close>, is bound neither in the function (whose parameters are
  \<open>f0\<close>, \<open>fn\<close>, \<open>df\<close>) nor at module scope nor among the builtins.
\<close>

theorem DFTpower_NameError: "DFTpower time signal f0 fn df = Inl NameError"
  by (simp add: DFTpower_def load_float_def load_global_def module_globals_def builtins_def
      andthen_def)

end
